theory Spec2Isabelle
  imports Complex_Main
begin

section \<open>The VFGN training and rollout script, examples/vfgn/train.py\<close>

text \<open>
  The script is glue around an external learned simulator and an external tensor
  library. Tensors are lists here: a tensor of shape [N] is a list, one of shape [N, D]
  a list of N rows of D numbers, one of shape [N, T, D] a list of N particles, each a
  list of T time steps of D coordinates. Floating-point numbers are idealised as reals.
  The calls into the simulator, the optimiser and the tensor library's loss functions
  are parameters of the model. The operations of the tensor library raise on tensors
  whose shapes do not fit; the theorems below state the shapes they need as hypotheses,
  and the list functions say nothing meaningful outside them.
\<close>

subsection \<open>Module constants\<close>

definition INPUT_SEQUENCE_LENGTH :: nat where
  "INPUT_SEQUENCE_LENGTH = 5"

definition PREDICT_LENGTH :: nat where
  "PREDICT_LENGTH = 1"

definition LOSS_DECAY_FACTOR :: real where
  "LOSS_DECAY_FACTOR = 6 / 10"

definition NUM_PARTICLE_TYPES :: nat where
  "NUM_PARTICLE_TYPES = 3"

definition KINEMATIC_PARTICLE_ID :: int where
  "KINEMATIC_PARTICLE_ID = 0"

definition METAL_PARTICLE_ID :: int where
  "METAL_PARTICLE_ID = 2"

definition ANCHOR_PLANE_PARTICLE_ID :: int where
  "ANCHOR_PLANE_PARTICLE_ID = 1"

subsection \<open>Errors and flags\<close>

datatype error =
    AssertionError
  | ValueError string
  | UnboundLocalError
  | RuntimeError
  | StopIteration
  | SystemExit
  | MetadataError
  | KeyError string
  | TypeError
  | AttributeError
  | SyntaxError
  | FileNotFoundError
  | FileExistsError
  | OSError

datatype mode_flag = train | eval | eval_rollout

datatype split_flag = split_train | split_valid | split_test

datatype loss_flag =
  standard | weighted | anchor | me | correlation | anchor_me | weighted_anchor

fun loss_name :: "loss_flag \<Rightarrow> string" where
  "loss_name standard = ''standard''"
| "loss_name weighted = ''weighted''"
| "loss_name anchor = ''anchor''"
| "loss_name me = ''me''"
| "loss_name correlation = ''correlation''"
| "loss_name anchor_me = ''anchor_me''"
| "loss_name weighted_anchor = ''weighted_anchor''"

fun split_name :: "split_flag \<Rightarrow> string" where
  "split_name split_train = ''train''"
| "split_name split_valid = ''valid''"
| "split_name split_test = ''test''"

definition startswith :: "string \<Rightarrow> string \<Rightarrow> bool" where
  "startswith s p = (take (length p) s = p)"

subsection \<open>Tensor operations used by the script\<close>

definition repeat_interleave :: "'a list \<Rightarrow> nat \<Rightarrow> 'a list" where
  "repeat_interleave xs repeats = concat (map (replicate repeats) xs)"

definition torch_where :: "bool list \<Rightarrow> 'a list \<Rightarrow> 'a list \<Rightarrow> 'a list" where
  "torch_where cond xs ys = map (\<lambda>(c, x, y). if c then x else y) (zip cond (zip xs ys))"

definition zeros :: "nat \<Rightarrow> real list" where
  "zeros n = replicate n 0"

definition sum_mask :: "bool list \<Rightarrow> real" where
  "sum_mask msk = of_nat (length (filter id msk))"

definition logical_not :: "bool list \<Rightarrow> bool list" where
  "logical_not msk = map Not msk"

text \<open>
  Modelled from the spec: utils.get_kinematic_mask of the external package
  modulus.utils.vfgn is missing. The mask is true exactly at the particles whose type
  equals KINEMATIC_PARTICLE_ID.
\<close>

definition get_kinematic_mask :: "int list \<Rightarrow> bool list" where
  "get_kinematic_mask particle_types = map (\<lambda>t. t = KINEMATIC_PARTICLE_ID) particle_types"

text \<open>
  Modelled from the spec: utils.get_metal_mask of the external package
  modulus.utils.vfgn is missing. The mask is true exactly at the particles whose type
  equals METAL_PARTICLE_ID, the normal particles.
\<close>

definition get_metal_mask :: "int list \<Rightarrow> bool list" where
  "get_metal_mask particle_types = map (\<lambda>t. t = METAL_PARTICLE_ID) particle_types"

text \<open>
  Modelled from the spec: utils.get_anchor_z_mask of the external package
  modulus.utils.vfgn is missing. The mask is true exactly at the anchor-plane particles,
  those whose type equals ANCHOR_PLANE_PARTICLE_ID.
\<close>

definition get_anchor_z_mask :: "int list \<Rightarrow> bool list" where
  "get_anchor_z_mask particle_types = map (\<lambda>t. t = ANCHOR_PLANE_PARTICLE_ID) particle_types"

subsection \<open>The loss of one training step (Train, lines 381 to 490)\<close>

text \<open>
  The loss functions of the tensor library and of the external utilities, and the
  random draw of the correlation variant, are parameters.
\<close>

record externals =
  l1_loss :: "real list list \<Rightarrow> real list list \<Rightarrow> real"
  cosine_similarity :: "real list \<Rightarrow> real list \<Rightarrow> real"
  weighted_square_error :: "real list list \<Rightarrow> real list list \<Rightarrow> real"

definition decay_fators_1 :: "real list" where
  "decay_fators_1 = map (\<lambda>i. LOSS_DECAY_FACTOR ^ i) [0..<PREDICT_LENGTH]"

definition decay_fators_3 :: "real list" where
  "decay_fators_3 = repeat_interleave decay_fators_1 3"

definition mul_rows :: "real list list \<Rightarrow> real list \<Rightarrow> real list list" where
  "mul_rows t v = map (\<lambda>row. map2 (*) row v) t"

text \<open>Lines 383 to 389: the squared error, decay weighted, summed over the last axis.\<close>

definition decayed_squared_error :: "real list list \<Rightarrow> real list list \<Rightarrow> real list" where
  "decayed_squared_error pred_acceleration target_acceleration =
     (let loss = map2 (map2 (\<lambda>p t. (p - t) ^ 2)) pred_acceleration target_acceleration;
          loss = mul_rows loss decay_fators_3;
          loss = map sum_list loss
      in loss)"

text \<open>
  Lines 324 to 341: the masks computed before the forward pass. The anchor-plane mask
  is assigned only when the loss flag starts with anchor.
\<close>

definition noise_masks :: "loss_flag \<Rightarrow> int list \<Rightarrow> bool list \<times> bool list option" where
  "noise_masks flag particle_types =
     (if startswith (loss_name flag) ''anchor''
      then (get_metal_mask particle_types, Some (get_anchor_z_mask particle_types))
      else (logical_not (get_kinematic_mask particle_types), None))"

text \<open>Lines 451 to 462: the correlation term over the drawn particle ids.\<close>

definition correlation_term ::
  "externals \<Rightarrow> real list list \<Rightarrow> real list list \<Rightarrow> nat list \<Rightarrow> nat \<Rightarrow> real" where
  "correlation_term ext pred_acceleration target_acceleration random_pids k =
     (let loss_corr =
        sum_list (map (\<lambda>idx_i.
          sum_list (map (\<lambda>idx_j.
            (let i = random_pids ! idx_i; j = random_pids ! idx_j;
                 corr_gt = cosine_similarity ext (target_acceleration ! i) (target_acceleration ! j);
                 corr_pred = cosine_similarity ext (pred_acceleration ! i) (pred_acceleration ! j)
             in (corr_gt - corr_pred) ^ 2))
            [idx_i..<length random_pids]))
          [0..<length random_pids])
      in loss_corr / of_nat (k ^ 2))"

text \<open>
  Lines 381 to 490. The division of a sum by a count of zero gives nan in the tensor
  library and 0 here: the theorems assume the count is positive.
\<close>

definition Train_loss ::
  "externals \<Rightarrow> loss_flag \<Rightarrow> real \<Rightarrow> real \<Rightarrow> int list \<Rightarrow> real list list \<Rightarrow> real list list
     \<Rightarrow> nat list \<Rightarrow> error + real" where
  "Train_loss ext flag l_plane l_me particle_types pred_acceleration target_acceleration
       random_pids =
     (let (non_kinematic_mask, anchor_plane_mask) = noise_masks flag particle_types;
          loss = decayed_squared_error pred_acceleration target_acceleration
      in
      if startswith (loss_name flag) ''anchor'' then
        (let non_kinematic_mask = logical_not (get_kinematic_mask particle_types);
             num_non_kinematic = sum_mask non_kinematic_mask;
             loss = torch_where non_kinematic_mask loss (zeros (length loss));
             loss = sum_list loss / num_non_kinematic;
             loss_plane = map (\<lambda>row. (row ! 2) ^ 2) pred_acceleration;
             decay_fator = map (\<lambda>i. LOSS_DECAY_FACTOR ^ i) [0..<1];
             loss_plane = map (\<lambda>x. x * hd decay_fator) loss_plane
         in case anchor_plane_mask of
              None \<Rightarrow> Inl UnboundLocalError
            | Some anchor_plane_mask \<Rightarrow>
               (let num_anchor_plane = sum_mask anchor_plane_mask;
                    loss_plane = torch_where anchor_plane_mask loss_plane
                                   (zeros (length loss_plane));
                    loss_plane = sum_list loss_plane / num_anchor_plane;
                    loss = loss + l_plane * loss_plane
                in if flag = anchor_me then
                     (let loss_l1 = l1_loss ext (mul_rows pred_acceleration decay_fators_3)
                                      (mul_rows target_acceleration decay_fators_3)
                      in Inr (loss + l_me * loss_l1))
                   else Inr loss))
      else if startswith (loss_name flag) ''weighted'' then
        (let loss = weighted_square_error ext pred_acceleration target_acceleration
         in if flag = weighted_anchor then
              (let loss_plane = map (\<lambda>row. (row ! 2) ^ 2) pred_acceleration
               in case anchor_plane_mask of
                    None \<Rightarrow> Inl UnboundLocalError
                  | Some anchor_plane_mask \<Rightarrow>
                     (let num_anchor_plane = sum_mask anchor_plane_mask;
                          loss_plane = torch_where anchor_plane_mask loss_plane
                                         (zeros (length loss_plane));
                          loss_plane = sum_list loss_plane / num_anchor_plane
                      in Inr (loss + l_plane * loss_plane)))
            else Inr loss)
      else if flag = correlation then
        (let loss_corr_factor = 1;
             k = 100;
             loss_corr = correlation_term ext pred_acceleration target_acceleration
                           random_pids k;
             num_non_kinematic = sum_mask non_kinematic_mask;
             loss = torch_where non_kinematic_mask loss (zeros (length loss));
             loss = sum_list loss / num_non_kinematic
         in Inr (loss + loss_corr_factor * loss_corr))
      else if flag = me then
        (let loss_l1 = l1_loss ext pred_acceleration target_acceleration;
             loss_l1 = map (\<lambda>d. loss_l1 * d) decay_fators_3;
             loss_l1 = sum_list loss_l1;
             num_non_kinematic = sum_mask non_kinematic_mask;
             loss = torch_where non_kinematic_mask loss (zeros (length loss));
             loss = sum_list loss / num_non_kinematic
         in Inr (loss + l_me * loss_l1))
      else
        (let num_non_kinematic = sum_mask non_kinematic_mask;
             loss = torch_where non_kinematic_mask loss (zeros (length loss));
             loss = sum_list loss / num_non_kinematic
         in Inr loss))"

text \<open>
  The claims speak of means over the particles of a type. The mean of the entries of
  \<open>xs\<close> at the particles whose type satisfies \<open>sel\<close>, in the words of the spec:
\<close>

definition mean_over_types :: "(int \<Rightarrow> bool) \<Rightarrow> int list \<Rightarrow> real list \<Rightarrow> real" where
  "mean_over_types sel particle_types xs =
     sum_list (map (\<lambda>n. xs ! n)
         (filter (\<lambda>n. sel (particle_types ! n)) [0..<length particle_types]))
       / of_nat (length (filter sel particle_types))"

text \<open>
  The terms that a loss variant adds to the masked squared error: the anchor-plane term
  (lines 401 to 413), the L1 terms (lines 416 to 418 and 474 to 483) and the
  correlation term (lines 445 to 469).
\<close>

definition added_terms ::
  "externals \<Rightarrow> loss_flag \<Rightarrow> real \<Rightarrow> real \<Rightarrow> int list \<Rightarrow> real list list \<Rightarrow> real list list
     \<Rightarrow> nat list \<Rightarrow> real" where
  "added_terms ext flag l_plane l_me particle_types pred_acceleration target_acceleration
       random_pids =
     (let plane = mean_over_types (\<lambda>t. t = ANCHOR_PLANE_PARTICLE_ID) particle_types
                    (map (\<lambda>row. (row ! 2) ^ 2) pred_acceleration)
      in case flag of
           anchor \<Rightarrow> l_plane * plane
         | anchor_me \<Rightarrow> l_plane * plane
             + l_me * l1_loss ext (mul_rows pred_acceleration decay_fators_3)
                        (mul_rows target_acceleration decay_fators_3)
         | correlation \<Rightarrow>
             correlation_term ext pred_acceleration target_acceleration random_pids 100
         | me \<Rightarrow> l_me * (l1_loss ext pred_acceleration target_acceleration
                         * sum_list decay_fators_3)
         | _ \<Rightarrow> 0)"

subsection \<open>Rollout of one trajectory (Test, lines 622 to 676)\<close>

text \<open>
  A dataset element in rollout mode: the positions of shape [N, T, D] (particle, time
  step, coordinate), the particle types of shape [N] and the global context of shape
  [T, 1]. The graph connectivity and particle counts only pass through to the simulator
  and are part of the simulator parameter.
\<close>

record features =
  position :: "real list list list"
  particle_type :: "int list"
  step_context :: "real list list"

text \<open>
  The external simulator. \<open>inference p w f c\<close> stands for
  \<^verbatim>\<open>model.inference(position_sequence=w, ..., global_context=c)[:, 0].squeeze(1)\<close>
  with parameters \<open>p\<close>: the predicted next position of every particle, of shape [N, D].
  \<open>forward\<close> is the training call that returns the predicted and the target
  acceleration, \<open>adam_step\<close> the backward pass and optimiser update at a given learning
  rate, \<open>evaluate\<close> the two mean squared errors of the periodic evaluation. The natural
  number given to \<open>forward\<close>, \<open>adam_step\<close> and \<open>random_choices\<close> is the step counter: it
  indexes the random draws. \<open>load_state_dict\<close> is
  \<^verbatim>\<open>model.load_state_dict(torch.load(FLAGS.model_path))\<close>, given the flag, which may be
  None. \<open>literal_eval\<close> is ast.literal_eval of the standard library on the flag
  message_passing_devices: the list of device names that the string denotes, or the
  exception raised on a string that is not a literal (SyntaxError, ValueError).
  \<open>torch_save\<close> is torch.save of the parameters to a path and gives the exception it
  raises, if any; \<open>format_2E\<close> formats a number as \<^verbatim>\<open>{:.2E}\<close> does. Moving the
  simulator to a device and setting its message passing devices do not change the
  parameters and are not modelled.
\<close>

record 'p world =
  loss_functions :: externals
  init_params :: 'p
  inference :: "'p \<Rightarrow> real list list list \<Rightarrow> features \<Rightarrow> real list list \<Rightarrow> real list list"
  load_state_dict :: "string option \<Rightarrow> error + 'p"
  forward :: "'p \<Rightarrow> features \<Rightarrow> real list list \<Rightarrow> nat \<Rightarrow> real list list \<times> real list list"
  adam_step :: "real \<Rightarrow> 'p \<Rightarrow> features \<Rightarrow> real list list \<Rightarrow> nat \<Rightarrow> 'p"
  evaluate :: "'p \<Rightarrow> features \<Rightarrow> real list list \<Rightarrow> real \<times> real"
  random_choices :: "nat \<Rightarrow> nat list"
  apex_available :: bool
  literal_eval :: "string \<Rightarrow> error + string list"
  torch_save :: "string \<Rightarrow> 'p \<Rightarrow> error option"
  format_2E :: "real \<Rightarrow> string"

record rollout_state =
  current_positions :: "real list list list"
  updated_predictions :: "real list list list"

definition shape_last :: "'a list list \<Rightarrow> nat" where
  "shape_last t = (case t of [] \<Rightarrow> 0 | row # _ \<Rightarrow> length row)"

definition reshape_rows :: "'a list \<Rightarrow> nat \<Rightarrow> 'a list list" where
  "reshape_rows xs d = map (\<lambda>i. take d (drop (i * d) xs)) [0..<length xs div d]"

definition where_rows :: "bool list list \<Rightarrow> 'a list list \<Rightarrow> 'a list list \<Rightarrow> 'a list list" where
  "where_rows cond xs ys =
     map (\<lambda>(c, x, y). torch_where c x y) (zip cond (zip xs ys))"

text \<open>
  Lines 642 to 646: the context read so far, zero padded. A negative pad length makes
  torch.zeros raise.
\<close>

definition global_context_step_of :: "real list list \<Rightarrow> nat \<Rightarrow> error + real list list" where
  "global_context_step_of global_context step =
     (let read_step_context = take (step + INPUT_SEQUENCE_LENGTH) global_context;
          pad = int (length global_context) - int (length read_step_context) - 1
      in if pad < 0 then Inl RuntimeError
         else Inr [concat (read_step_context @ replicate (nat pad) [0])])"

text \<open>Lines 648 to 666: the position emitted at one step.\<close>

definition next_position_of ::
  "'p world \<Rightarrow> 'p \<Rightarrow> features \<Rightarrow> nat \<Rightarrow> real list list list \<Rightarrow> error + real list list" where
  "next_position_of w params feats step current =
     (case global_context_step_of (step_context feats) step of
        Inl e \<Rightarrow> Inl e
      | Inr global_context_step \<Rightarrow>
         (let ground_truth_positions = map (drop INPUT_SEQUENCE_LENGTH) (position feats);
              predict_positions = inference w params current feats global_context_step;
              kinematic_mask = get_kinematic_mask (particle_type feats);
              positions_ground_truth = map (\<lambda>p. p ! step) ground_truth_positions;
              kinematic_mask = repeat_interleave kinematic_mask (shape_last predict_positions);
              kinematic_mask = reshape_rows kinematic_mask (shape_last predict_positions);
              next_position = where_rows kinematic_mask positions_ground_truth predict_positions
          in Inr next_position))"

text \<open>Lines 668 to 674: the emitted position is recorded and the window moves on.\<close>

definition cat_step :: "real list list list \<Rightarrow> real list list \<Rightarrow> real list list list" where
  "cat_step window newest = map2 (\<lambda>steps p. steps @ [p]) (map (drop 1) window) newest"

definition rollout_step ::
  "'p world \<Rightarrow> 'p \<Rightarrow> bool \<Rightarrow> features \<Rightarrow> nat \<Rightarrow> rollout_state \<Rightarrow> error + rollout_state" where
  "rollout_step w params refine feats step s =
     (case next_position_of w params feats step (current_positions s) of
        Inl e \<Rightarrow> Inl e
      | Inr next_position \<Rightarrow>
         (let positions_ground_truth =
                map (\<lambda>p. p ! step) (map (drop INPUT_SEQUENCE_LENGTH) (position feats));
              updated = updated_predictions s @ [next_position]
          in if \<not> refine
             then Inr \<lparr>current_positions = cat_step (current_positions s) next_position,
                       updated_predictions = updated\<rparr>
             else Inr \<lparr>current_positions = cat_step (current_positions s) positions_ground_truth,
                       updated_predictions = updated\<rparr>))"

fun rollout_loop ::
  "'p world \<Rightarrow> 'p \<Rightarrow> bool \<Rightarrow> features \<Rightarrow> nat list \<Rightarrow> rollout_state \<Rightarrow> error + rollout_state" where
  "rollout_loop w params refine feats [] s = Inr s"
| "rollout_loop w params refine feats (step # steps) s =
     (case rollout_step w params refine feats step s of
        Inl e \<Rightarrow> Inl e
      | Inr s' \<Rightarrow> rollout_loop w params refine feats steps s')"

definition num_steps_of :: "features \<Rightarrow> nat" where
  "num_steps_of feats = shape_last (map (drop INPUT_SEQUENCE_LENGTH) (position feats))"

definition initial_state :: "features \<Rightarrow> rollout_state" where
  "initial_state feats =
     \<lparr>current_positions = map (take INPUT_SEQUENCE_LENGTH) (position feats),
      updated_predictions = []\<rparr>"

subsection \<open>The rollout artifact (Test, lines 676 to 706)\<close>

datatype json =
    JNum real
  | JInt int
  | JStr string
  | JList "json list"
  | JDict "(string \<times> json) list"

definition tolist1 :: "real list \<Rightarrow> json" where
  "tolist1 xs = JList (map JNum xs)"

definition tolist2 :: "real list list \<Rightarrow> json" where
  "tolist2 xs = JList (map tolist1 xs)"

definition tolist3 :: "real list list list \<Rightarrow> json" where
  "tolist3 xs = JList (map tolist2 xs)"

text \<open>Assignment to a key of a dict, which keeps the order of insertion.\<close>

fun dict_set :: "(string \<times> json) list \<Rightarrow> string \<Rightarrow> json \<Rightarrow> (string \<times> json) list" where
  "dict_set [] k v = [(k, v)]"
| "dict_set ((k', v') # d) k v = (if k' = k then (k, v) # d else (k', v') # dict_set d k v)"

definition digit_char :: "nat \<Rightarrow> char" where
  "digit_char d = char_of (48 + d)"

function str_nat :: "nat \<Rightarrow> string" where
  "str_nat n = (if n < 10 then [digit_char n] else str_nat (n div 10) @ [digit_char (n mod 10)])"
  by pat_completeness auto
termination
  by (relation "measure id") auto

declare str_nat.simps [simp del]

definition os_path_join :: "string \<Rightarrow> string \<Rightarrow> string" where
  "os_path_join a b =
     (if startswith b ''/'' then b
      else if a = [] \<or> last a = CHR ''/'' then a @ b
      else a @ ''/'' @ b)"

definition rollout_filename :: "string \<Rightarrow> split_flag \<Rightarrow> nat \<Rightarrow> string" where
  "rollout_filename output_path eval_split example_index =
     os_path_join output_path
       (''rollout_'' @ split_name eval_split @ ''_'' @ str_nat example_index @ ''.json'')"

text \<open>
  Lines 622 to 698 for one trajectory: the rollout loop, then the dict that is written.
  torch.stack raises on an empty list of predictions.
\<close>

definition rollout_op_of ::
  "'p world \<Rightarrow> 'p \<Rightarrow> bool \<Rightarrow> json \<Rightarrow> features \<Rightarrow> error + (string \<times> json) list" where
  "rollout_op_of w params refine metadata feats =
     (let initial_positions = map (take INPUT_SEQUENCE_LENGTH) (position feats);
          ground_truth_positions = map (drop INPUT_SEQUENCE_LENGTH) (position feats);
          global_context = step_context feats;
          num_steps = shape_last ground_truth_positions
      in case rollout_loop w params refine feats [0..<num_steps]
                \<lparr>current_positions = initial_positions, updated_predictions = []\<rparr> of
           Inl e \<Rightarrow> Inl e
         | Inr s \<Rightarrow>
            if updated_predictions s = [] then Inl RuntimeError
            else
              (let rollout_op =
                 [(''initial_positions'', tolist3 initial_positions),
                  (''predicted_rollout'', tolist3 (updated_predictions s)),
                  (''ground_truth_rollout'', tolist3 ground_truth_positions),
                  (''particle_types'', JList (map JInt (particle_type feats))),
                  (''global_context'', tolist2 global_context)]
               in Inr (dict_set rollout_op ''metadata'' metadata)))"

subsection \<open>Flags, the input function and the dataset\<close>

text \<open>
  The files, the operating system and the external input pipeline. \<open>read_metadata\<close> is
  \<^verbatim>\<open>_read_metadata(data_path)\<close>, which fails when the metadata cannot be read; the data
  path is taken as set, since with the default None this first use of it fails in the
  external reader. \<open>rollout_examples d s\<close> is the list of elements that the records of
  the file \<^verbatim>\<open>{s}.tfrecord\<close> under \<open>d\<close> give after parsing and prepare_rollout_inputs,
  and \<open>one_step_examples d s b m\<close> the elements that one pass of the one-step pipeline
  yields for batch size \<open>b\<close> and mode \<open>m\<close>. An element is a pair of features and targets.

  The state of the file system has the abstract type \<open>'f\<close>. \<open>os_path_exists\<close>,
  \<open>os_makedirs\<close> and \<open>open_write\<close> are os.path.exists, os.makedirs and the opening of
  a file for writing followed by json.dump; the last two give the new state or the
  exception raised together with the state that the failed call leaves.
\<close>

record 'f files =
  read_metadata :: "string \<Rightarrow> error + json"
  rollout_examples :: "string \<Rightarrow> string \<Rightarrow> (features \<times> real list list) list"
  one_step_examples :: "string \<Rightarrow> string \<Rightarrow> int \<Rightarrow> string \<Rightarrow> (features \<times> real list list) list"
  os_path_exists :: "'f \<Rightarrow> string \<Rightarrow> bool"
  os_makedirs :: "'f \<Rightarrow> string \<Rightarrow> error \<times> 'f + 'f"
  open_write :: "'f \<Rightarrow> string \<Rightarrow> json \<Rightarrow> error \<times> 'f + 'f"

text \<open>
  A dataset of the input pipeline is a finite list of elements or, after
  \<^verbatim>\<open>ds.repeat()\<close> on a dataset that is not empty, a sequence without end.
\<close>

datatype 'a tf_dataset = Finite "'a list" | Forever

text \<open>
  Lines 206 to 254, applied: \<^verbatim>\<open>get_input_fn(data_path, batch_size, mode, split)()\<close>.
  In the mode one_step_train the dataset is repeated forever (line 240).
\<close>

definition get_input_fn ::
  "'f files \<Rightarrow> string \<Rightarrow> int \<Rightarrow> string \<Rightarrow> string
     \<Rightarrow> error + (features \<times> real list list) tf_dataset" where
  "get_input_fn fs data_path batch_size mode split =
     (case read_metadata fs data_path of
        Inl e \<Rightarrow> Inl e
      | Inr metadata \<Rightarrow>
         if startswith mode ''one_step'' then
           (let ds = one_step_examples fs data_path split batch_size mode
            in if mode = ''one_step_train'' \<and> ds \<noteq> [] then Inr Forever
               else Inr (Finite ds))
         else if mode = ''rollout'' then
           (if batch_size = 1 then Inr (Finite (rollout_examples fs data_path split))
            else Inl AssertionError)
         else Inl (ValueError mode))"

text \<open>
  The flags. The three paths have the default None; model_path and output_path are
  optional strings, data_path is taken as set.
\<close>

record flags =
  mode :: mode_flag
  eval_split :: split_flag
  data_path :: string
  batch_size :: int
  num_steps :: int
  eval_steps :: int
  noise_std :: real
  model_path :: "string option"
  output_path :: "string option"
  loss :: loss_flag
  l_plane :: real
  l_me :: real
  prefetch_buffer_size :: int
  device :: string
  message_passing_devices :: string
  fp16 :: bool
  rollout_refine :: bool

text \<open>
  Lines 257 to 284. The constructor takes \<^verbatim>\<open>len(list(self.dataset))\<close> (line 262), which
  does not return on a dataset without end: the result None stands for a call that
  does not return.
\<close>

record GraphDataset =
  dataset :: "(features \<times> real list list) list"
  size_ds :: nat
  pos :: nat

definition GraphDataset_init ::
  "'f files \<Rightarrow> flags \<Rightarrow> string \<Rightarrow> string \<Rightarrow> (error + GraphDataset) option" where
  "GraphDataset_init fs FLAGS mode' split =
     (case get_input_fn fs (data_path FLAGS) (batch_size FLAGS) mode' split of
        Inl e \<Rightarrow> Some (Inl e)
      | Inr Forever \<Rightarrow> None
      | Inr (Finite ds) \<Rightarrow> Some (Inr \<lparr>dataset = ds, size_ds = length ds, pos = 0\<rparr>))"

definition GraphDataset_next ::
  "GraphDataset \<Rightarrow> error + ((features \<times> real list list) \<times> GraphDataset)" where
  "GraphDataset_next self =
     (if pos self < size_ds self
      then Inr (dataset self ! pos self, self\<lparr>pos := pos self + 1\<rparr>)
      else Inl StopIteration)"

text \<open>
  The loop \<^verbatim>\<open>for features, targets in tqdm(dataset)\<close> calls \<open>GraphDataset_next\<close> until
  it raises StopIteration: it visits the elements from \<open>pos\<close> on, in order.
\<close>

definition remaining :: "GraphDataset \<Rightarrow> (features \<times> real list list) list" where
  "remaining self = drop (pos self) (take (size_ds self) (dataset self))"

subsection \<open>The metadata read for the simulator (lines 296 to 308 and 572 to 585)\<close>

text \<open>
  Train and Test index the metadata with eight keys, in this order, to build the
  normalisation statistics and the simulator; a key that is absent raises KeyError.
  The conversion of the values to tensors is external and not modelled.
\<close>

definition metadata_keys :: "string list" where
  "metadata_keys = [''acc_mean'', ''acc_std'', ''vel_mean'', ''vel_std'', ''context_mean'',
     ''context_std'', ''dim'', ''bounds'']"

definition dict_get :: "json \<Rightarrow> string \<Rightarrow> error + json" where
  "dict_get d k =
     (case d of
        JDict items \<Rightarrow> (case map_of items k of None \<Rightarrow> Inl (KeyError k) | Some v \<Rightarrow> Inr v)
      | _ \<Rightarrow> Inl TypeError)"

fun read_keys :: "json \<Rightarrow> string list \<Rightarrow> error option" where
  "read_keys metadata [] = None"
| "read_keys metadata (k # ks) =
     (case dict_get metadata k of Inl e \<Rightarrow> Some e | Inr v \<Rightarrow> read_keys metadata ks)"

subsection \<open>Test (lines 569 to 707)\<close>

text \<open>
  On the first element the simulator is run once with its initial parameters, the result
  is dropped, and the checkpoint at model_path is loaded; every element is then rolled
  out and written (lines 699 to 704): the file name is joined to output_path, which
  raises TypeError when the flag is None, the directory is made when it does not exist,
  and the file is opened and written. \<open>written\<close> lists the files written so far with
  their contents, in the order of writing, \<open>filesystem\<close> is the state of the file system.
  An exception ends the run and leaves what is written.
\<close>

record ('p, 'f) test_state =
  loaded :: bool
  test_model :: 'p
  example_index :: nat
  written :: "(string \<times> json) list"
  filesystem :: 'f

fun Test_loop ::
  "'f files \<Rightarrow> 'p world \<Rightarrow> flags \<Rightarrow> json \<Rightarrow> (features \<times> real list list) list
     \<Rightarrow> ('p, 'f) test_state \<Rightarrow> ('p, 'f) test_state \<times> error option" where
  "Test_loop fs w FLAGS metadata [] s = (s, None)"
| "Test_loop fs w FLAGS metadata ((feats, targets) # rest) s =
     (case (if \<not> loaded s
            then (case load_state_dict w (model_path FLAGS) of
                    Inl e \<Rightarrow> Inl e
                  | Inr p \<Rightarrow> Inr (s\<lparr>loaded := True, test_model := p\<rparr>))
            else Inr s) of
        Inl e \<Rightarrow> (s, Some e)
      | Inr s1 \<Rightarrow>
         (case rollout_op_of w (test_model s1) (rollout_refine FLAGS) metadata feats of
            Inl e \<Rightarrow> (s1, Some e)
          | Inr rollout_op \<Rightarrow>
             (case output_path FLAGS of
                None \<Rightarrow> (s1, Some TypeError)
              | Some out \<Rightarrow>
                 (let filename = rollout_filename out (eval_split FLAGS) (example_index s1)
                  in case (if \<not> os_path_exists fs (filesystem s1) out
                           then os_makedirs fs (filesystem s1) out
                           else Inr (filesystem s1)) of
                       Inl (e, f1) \<Rightarrow> (s1\<lparr>filesystem := f1\<rparr>, Some e)
                     | Inr f1 \<Rightarrow>
                        (case open_write fs f1 filename (JDict rollout_op) of
                           Inl (e, f2) \<Rightarrow> (s1\<lparr>filesystem := f2\<rparr>, Some e)
                         | Inr f2 \<Rightarrow>
                            Test_loop fs w FLAGS metadata rest
                              (s1\<lparr>written := written s1 @ [(filename, JDict rollout_op)],
                                  filesystem := f2,
                                  example_index := example_index s1 + 1\<rparr>))))))"

text \<open>
  Test builds the dataset, reads the metadata and its keys, and runs the loop, from the
  file system state \<open>f0\<close>. The result None stands for a run that does not return.
\<close>

definition Test ::
  "'f files \<Rightarrow> 'p world \<Rightarrow> flags \<Rightarrow> 'f \<Rightarrow> (('p, 'f) test_state \<times> error option) option" where
  "Test fs w FLAGS f0 =
     (let s0 = \<lparr>loaded = False, test_model = init_params w, example_index = 0, written = [],
                filesystem = f0\<rparr>
      in case GraphDataset_init fs FLAGS ''rollout'' (split_name (eval_split FLAGS)) of
           None \<Rightarrow> None
         | Some (Inl e) \<Rightarrow> Some (s0, Some e)
         | Some (Inr ds) \<Rightarrow>
            (case read_metadata fs (data_path FLAGS) of
               Inl e \<Rightarrow> Some (s0, Some e)
             | Inr metadata \<Rightarrow>
                (case read_keys metadata metadata_keys of
                   Some e \<Rightarrow> Some (s0, Some e)
                 | None \<Rightarrow> Some (Test_loop fs w FLAGS metadata (remaining ds) s0))))"

subsection \<open>Train (lines 290 to 566)\<close>

record Adam =
  lr :: real
  n_updates :: nat

text \<open>
  \<open>n_updates\<close> counts the calls of \<^verbatim>\<open>optimizer.step()\<close>. \<open>saved\<close> lists the checkpoints
  written by torch.save: the path and the parameters. The tensorboard writer is not
  modelled.
\<close>

record 'p train_state =
  model :: 'p
  optimizer :: "Adam option"
  step :: nat
  running_loss :: real
  best_loss :: real
  testDataset :: GraphDataset
  saved :: "(string \<times> 'p) list"

definition decay_steps :: nat where
  "decay_steps = 5000000"

text \<open>Lines 521 to 554: the periodic evaluation reads eval_steps elements of the test set.\<close>

fun evaluate_loop ::
  "'p world \<Rightarrow> 'p \<Rightarrow> nat \<Rightarrow> GraphDataset \<Rightarrow> real \<times> real \<Rightarrow> error + (GraphDataset \<times> real \<times> real)" where
  "evaluate_loop w params 0 ds acc = Inr (ds, acc)"
| "evaluate_loop w params (Suc j) ds (test_loss, position_loss) =
     (case GraphDataset_next ds of
        Inl e \<Rightarrow> Inl e
      | Inr ((feats, targets), ds') \<Rightarrow>
         (let (test_mse, p_mse) = evaluate w params feats targets
          in evaluate_loop w params j ds' (test_loss + test_mse, position_loss + p_mse)))"

text \<open>Lines 560 to 563: the checkpoint of a new best test loss.\<close>

definition checkpoint_name :: "'p world \<Rightarrow> real \<Rightarrow> nat \<Rightarrow> string" where
  "checkpoint_name w test_loss n =
     ''model_loss-'' @ format_2E w test_loss @ ''_step-'' @ str_nat n @ ''.pt''"

text \<open>
  The body of the training loop, lines 320 to 564. While the optimiser is None the body
  evaluates the flag message_passing_devices as a literal (line 362), creates the
  optimiser and continues with the next element (lines 357 to 379); exit() is called
  when mixed precision is asked for and apex cannot be imported.
\<close>

definition Train_iteration ::
  "'p world \<Rightarrow> flags \<Rightarrow> features \<times> real list list \<Rightarrow> 'p train_state \<Rightarrow> error + 'p train_state" where
  "Train_iteration w FLAGS element s =
     (let (feats, targets) = element;
          pred_target = forward w (model s) feats targets (step s)
      in case optimizer s of
           None \<Rightarrow>
             (case literal_eval w (message_passing_devices FLAGS) of
                Inl e \<Rightarrow> Inl e
              | Inr devices \<Rightarrow>
                 if fp16 FLAGS \<and> \<not> apex_available w then Inl SystemExit
                 else Inr (s\<lparr>optimizer := Some \<lparr>lr = 1 / 100000, n_updates = 0\<rparr>\<rparr>))
         | Some opt \<Rightarrow>
            (let (pred_acceleration, target_acceleration) = pred_target
             in case Train_loss (loss_functions w) (loss FLAGS) (l_plane FLAGS) (l_me FLAGS)
                       (particle_type feats) pred_acceleration target_acceleration
                       (random_choices w (step s)) of
                  Inl e \<Rightarrow> Inl e
                | Inr loss_value \<Rightarrow>
                   (let model' = adam_step w (lr opt) (model s) feats targets (step s);
                        opt = opt\<lparr>n_updates := n_updates opt + 1\<rparr>;
                        running = running_loss s + loss_value;
                        step' = step s + 1;
                        opt = (if step' mod decay_steps = 0 then opt\<lparr>lr := lr opt * (1 / 10)\<rparr>
                               else opt);
                        running = (if step' mod 10 = 0 then 0 else running);
                        s1 = s\<lparr>model := model', optimizer := Some opt, step := step',
                               running_loss := running\<rparr>
                    in if step' mod 50 = 0 then
                         (case evaluate_loop w model' (nat (eval_steps FLAGS)) (testDataset s)
                                 (0, 0) of
                            Inl e \<Rightarrow> Inl e
                          | Inr (ds', test_loss, position_loss) \<Rightarrow>
                             if test_loss < best_loss s1 then
                               (case model_path FLAGS of
                                  None \<Rightarrow> Inl TypeError
                                | Some dir \<Rightarrow>
                                   (let path = os_path_join dir
                                                 (checkpoint_name w test_loss step')
                                    in case torch_save w path model' of
                                         Some e \<Rightarrow> Inl e
                                       | None \<Rightarrow>
                                          Inr (s1\<lparr>testDataset := ds',
                                                  saved := saved s1 @ [(path, model')],
                                                  best_loss := test_loss\<rparr>)))
                             else Inr (s1\<lparr>testDataset := ds'\<rparr>))
                       else Inr s1)))"

fun Train_loop ::
  "'p world \<Rightarrow> flags \<Rightarrow> (features \<times> real list list) list \<Rightarrow> 'p train_state
     \<Rightarrow> error + 'p train_state" where
  "Train_loop w FLAGS [] s = Inr s"
| "Train_loop w FLAGS (element # rest) s =
     (case Train_iteration w FLAGS element s of
        Inl e \<Rightarrow> Inl e
      | Inr s' \<Rightarrow> Train_loop w FLAGS rest s')"

definition Train_init :: "'p world \<Rightarrow> GraphDataset \<Rightarrow> 'p train_state" where
  "Train_init w test_ds =
     \<lparr>model = init_params w, optimizer = None, step = 0, running_loss = 0,
      best_loss = 1000, testDataset = test_ds, saved = []\<rparr>"

text \<open>
  Train builds the two datasets, both in the mode one_step_train, reads the metadata and
  its keys, and runs the loop. The result None stands for a run that does not return.
\<close>

definition Train :: "'f files \<Rightarrow> 'p world \<Rightarrow> flags \<Rightarrow> (error + 'p train_state) option" where
  "Train fs w FLAGS =
     (case GraphDataset_init fs FLAGS ''one_step_train'' ''train'' of
        None \<Rightarrow> None
      | Some (Inl e) \<Rightarrow> Some (Inl e)
      | Some (Inr ds) \<Rightarrow>
         (case GraphDataset_init fs FLAGS ''one_step_train'' ''test'' of
            None \<Rightarrow> None
          | Some (Inl e) \<Rightarrow> Some (Inl e)
          | Some (Inr test_ds) \<Rightarrow>
             (case read_metadata fs (data_path FLAGS) of
                Inl e \<Rightarrow> Some (Inl e)
              | Inr metadata \<Rightarrow>
                 (case read_keys metadata metadata_keys of
                    Some e \<Rightarrow> Some (Inl e)
                  | None \<Rightarrow>
                     Some (Train_loop w FLAGS (remaining ds) (Train_init w test_ds))))))"

subsection \<open>main (lines 710 to 714)\<close>

datatype ('p, 'f) outcome =
    Trained "error + 'p train_state"
  | Tested "('p, 'f) test_state \<times> error option"

definition main :: "'f files \<Rightarrow> 'p world \<Rightarrow> flags \<Rightarrow> 'f \<Rightarrow> ('p, 'f) outcome option" where
  "main fs w FLAGS f0 =
     (if mode FLAGS = train then map_option Trained (Train fs w FLAGS)
      else map_option Tested (Test fs w FLAGS f0))"

subsection \<open>The artifact in the words of the spec\<close>

text \<open>
  The object that the spec describes for a trajectory: six keys, the first window of the
  ground truth, the predicted positions, the remaining ground truth, the particle types,
  the global context and the metadata.
\<close>

definition rollout_dict :: "json \<Rightarrow> features \<Rightarrow> real list list list \<Rightarrow> (string \<times> json) list" where
  "rollout_dict metadata feats predictions =
     [(''initial_positions'', tolist3 (map (take INPUT_SEQUENCE_LENGTH) (position feats))),
      (''predicted_rollout'', tolist3 predictions),
      (''ground_truth_rollout'', tolist3 (map (drop INPUT_SEQUENCE_LENGTH) (position feats))),
      (''particle_types'', JList (map JInt (particle_type feats))),
      (''global_context'', tolist2 (step_context feats)),
      (''metadata'', metadata)]"

text \<open>The positions that the rollout loop of a trajectory emits, in step order.\<close>

definition emitted_positions :: "'p world \<Rightarrow> 'p \<Rightarrow> bool \<Rightarrow> features \<Rightarrow> real list list list" where
  "emitted_positions w params refine feats =
     (case rollout_loop w params refine feats [0..<num_steps_of feats] (initial_state feats) of
        Inl e \<Rightarrow> []
      | Inr s \<Rightarrow> updated_predictions s)"




text \<open>
  The L1 loss of the tensor library with its default reduction: the mean of the absolute
  differences of all entries.
\<close>

definition mean_absolute_error :: "real list list \<Rightarrow> real list list \<Rightarrow> real" where
  "mean_absolute_error xs ys =
     sum_list (concat (map2 (map2 (\<lambda>x y. \<bar>x - y\<bar>)) xs ys)) / of_nat (length (concat xs))"

subsection \<open>Shapes\<close>

text \<open>A tensor of shape [n, d]: \<open>n\<close> rows of \<open>d\<close> entries.\<close>

definition shaped :: "nat \<Rightarrow> nat \<Rightarrow> 'a list list \<Rightarrow> bool" where
  "shaped n d xs \<longleftrightarrow> length xs = n \<and> (\<forall>row \<in> set xs. length row = d)"

subsection \<open>Concrete inputs for the examples\<close>

text \<open>Loss functions of the tensor library replaced by constants, for evaluation.\<close>

definition example_externals :: externals where
  "example_externals = \<lparr>l1_loss = (\<lambda>_ _. 1), cosine_similarity = (\<lambda>_ _. 0), weighted_square_error = (\<lambda>_ _. 0)\<rparr>"

text \<open>The same with the L1 loss as the mean absolute error.\<close>

definition mae_externals :: externals where
  "mae_externals = \<lparr>l1_loss = mean_absolute_error, cosine_similarity = (\<lambda>_ _. 0), weighted_square_error = (\<lambda>_ _. 0)\<rparr>"

text \<open>
  A simulator that moves every particle by 1 in each coordinate and whose parameters are
  a counter that every optimiser step increments, and a trajectory of two particles,
  the first kinematic, over seven time steps in two dimensions. The checkpoint loads
  when a model path is given; torch.load of None raises AttributeError.
  \<open>literal_eval\<close> is given on the strings the examples use: the list of one device
  name, and the default of the flag message_passing_devices, whose last string lacks
  its closing quote, so that ast.literal_eval raises SyntaxError; every other string is
  treated like the default.
\<close>

definition example_world :: "nat world" where
  "example_world =
     \<lparr>loss_functions = example_externals,
      init_params = 0,
      inference = (\<lambda>p window feats c. map (\<lambda>steps. map (\<lambda>x. x + 1) (last steps)) window),
      load_state_dict =
        (\<lambda>path. case path of None \<Rightarrow> Inl AttributeError | Some file \<Rightarrow> Inr 7),
      forward = (\<lambda>p feats targets n. (map (map (\<lambda>x. x + 1)) targets, targets)),
      adam_step = (\<lambda>rate p feats targets n. Suc p),
      evaluate = (\<lambda>p feats targets. (0, 0)),
      random_choices = (\<lambda>n. []),
      apex_available = False,
      literal_eval = (\<lambda>s. if s = ''['' @ [CHR 0x27] @ ''cuda:0'' @ [CHR 0x27] @ '']''
                          then Inr [''cuda:0''] else Inl SyntaxError),
      torch_save = (\<lambda>path p. None),
      format_2E = (\<lambda>x. ''0.00E+00'')\<rparr>"

definition default_message_passing_devices :: string where
  "default_message_passing_devices =
     ''['' @ [CHR 0x27] @ ''cuda:0'' @ [CHR 0x27] @ '', '' @ [CHR 0x27] @ ''cuda:1]''"

definition example_features :: features where
  "example_features =
     \<lparr>position =
        [[[0, 0], [1, 0], [2, 0], [3, 0], [4, 0], [5, 0], [6, 0]],
         [[0, 1], [0, 2], [0, 3], [0, 4], [0, 5], [0, 7], [0, 9]]],
      particle_type = [0, 2],
      step_context = [[10], [20], [30], [40], [50], [60], [70]]\<rparr>"

text \<open>A training element: a window of two particles in three dimensions and its targets.\<close>

definition example_element :: "features \<times> real list list" where
  "example_element =
     (\<lparr>position =
         [[[0, 0, 0], [1, 0, 0], [2, 0, 0], [3, 0, 0], [4, 0, 0]],
          [[0, 1, 0], [0, 2, 0], [0, 3, 0], [0, 4, 0], [0, 5, 0]]],
       particle_type = [0, 2],
       step_context = [[10], [20], [30], [40], [50], [60]]\<rparr>,
      [[5, 0, 0], [0, 6, 0]])"

definition example_test_dataset :: GraphDataset where
  "example_test_dataset = \<lparr>dataset = [example_element], size_ds = 1, pos = 0\<rparr>"

text \<open>
  A data directory with one test trajectory and metadata with the eight keys, and a file
  system whose state is the list of its directories and the list of the files written.
  A directory with the empty name cannot be made; a file is written when it lies under
  a directory that exists.
\<close>

definition example_metadata :: json where
  "example_metadata =
     JDict [(''bounds'', JList [JList [JNum 0, JNum 10], JList [JNum 0, JNum 10]]),
            (''dim'', JInt 2),
            (''vel_mean'', JList [JNum 0, JNum 0]), (''vel_std'', JList [JNum 1, JNum 1]),
            (''acc_mean'', JList [JNum 0, JNum 0]), (''acc_std'', JList [JNum 1, JNum 1]),
            (''context_mean'', JList [JNum 0]), (''context_std'', JList [JNum 1])]"

definition example_files :: "(string list \<times> (string \<times> json) list) files" where
  "example_files =
     \<lparr>read_metadata =
        (\<lambda>path. if path = ''data'' then Inr example_metadata else Inl MetadataError),
      rollout_examples =
        (\<lambda>path split. if path = ''data'' \<and> split = ''test''
           then [(example_features, [[6, 0], [0, 9]])] else []),
      one_step_examples =
        (\<lambda>path split batch m. if path = ''data'' then [example_element] else []),
      os_path_exists = (\<lambda>(dirs, fls) path. path \<in> set dirs \<or> path \<in> set (map fst fls)),
      os_makedirs =
        (\<lambda>(dirs, fls) path.
           if path = [] then Inl (FileNotFoundError, (dirs, fls))
           else if path \<in> set dirs \<or> path \<in> set (map fst fls)
           then Inl (FileExistsError, (dirs, fls))
           else Inr (dirs @ [path], fls)),
      open_write =
        (\<lambda>(dirs, fls) path c.
           if list_ex (\<lambda>d. startswith path (d @ ''/'')) dirs then Inr (dirs, fls @ [(path, c)])
           else Inl (FileNotFoundError, (dirs, fls)))\<rparr>"

definition example_flags :: flags where
  "example_flags =
     \<lparr>mode = eval_rollout, eval_split = split_test, data_path = ''data'', batch_size = 1,
      num_steps = 20000000, eval_steps = 1, noise_std = 67 / 100000,
      model_path = Some ''model.pt'', output_path = Some ''out'', loss = standard,
      l_plane = 30, l_me = 3, prefetch_buffer_size = 100, device = ''cuda:0'',
      message_passing_devices = ''['' @ [CHR 0x27] @ ''cuda:0'' @ [CHR 0x27] @ '']'',
      fp16 = False, rollout_refine = False\<rparr>"

section \<open>Properties of the loss\<close>

lemma sum_list_interleave3:
  "length xs = 3 * length ds \<Longrightarrow>
   sum_list (map2 (*) xs (repeat_interleave ds 3)) =
   (\<Sum>i<length ds. \<Sum>c<3. xs ! (3 * i + c) * (ds ! i :: real))"
proof (induction ds arbitrary: xs)
  case Nil
  then show ?case by (simp add: repeat_interleave_def)
next
  case (Cons d ds)
  then obtain a b c ys where xs: "xs = a # b # c # ys"
    by (cases xs; simp; cases "tl xs"; simp; cases "tl (tl xs)"; simp)
  with Cons.prems have len: "length ys = 3 * length ds" by simp
  have ih: "sum_list (map2 (*) ys (repeat_interleave ds 3)) =
     (\<Sum>i<length ds. \<Sum>c<3. ys ! (3 * i + c) * ds ! i)"
    using Cons.IH[OF len] .
  have ri: "repeat_interleave (d # ds) 3 = d # d # d # repeat_interleave ds 3"
    by (simp add: repeat_interleave_def numeral_3_eq_3)
  have shift: "(\<Sum>i<length ds. \<Sum>c<3. xs ! (3 * Suc i + c) * (d # ds) ! Suc i) =
      (\<Sum>i<length ds. \<Sum>c<3. ys ! (3 * i + c) * ds ! i)"
    by (simp add: xs numeral_3_eq_3)
  have "(\<Sum>i<length (d # ds). \<Sum>c<3. xs ! (3 * i + c) * (d # ds) ! i) =
      (\<Sum>c<3. xs ! (3 * 0 + c) * (d # ds) ! 0) +
      (\<Sum>i<length ds. \<Sum>c<3. xs ! (3 * Suc i + c) * (d # ds) ! Suc i)"
    by (simp add: sum.lessThan_Suc_shift del: sum.lessThan_Suc)
  also have "(\<Sum>c<3. xs ! (3 * 0 + c) * (d # ds) ! 0) = a * d + b * d + c * d"
    by (simp add: xs numeral_3_eq_3)
  finally show ?case
    by (simp add: xs ri ih shift)
qed


lemma length_decay_fators_1: "length decay_fators_1 = PREDICT_LENGTH"
  by (simp add: decay_fators_1_def)

lemma nth_decay_fators_1: "i < PREDICT_LENGTH \<Longrightarrow> decay_fators_1 ! i = LOSS_DECAY_FACTOR ^ i"
  by (simp add: decay_fators_1_def)

lemma nth_decayed_squared_error:
  assumes n: "n < length pred" "n < length target"
    and lp: "length (pred ! n) = 3 * PREDICT_LENGTH"
    and lt: "length (target ! n) = 3 * PREDICT_LENGTH"
  shows "decayed_squared_error pred target ! n =
     (\<Sum>i<PREDICT_LENGTH. \<Sum>c<3.
        (pred ! n ! (3 * i + c) - target ! n ! (3 * i + c)) ^ 2 * LOSS_DECAY_FACTOR ^ i)"
proof -
  let ?sq = "map2 (\<lambda>p t. (p - t) ^ 2) (pred ! n) (target ! n)"
  have len: "length ?sq = 3 * length decay_fators_1"
    by (simp add: lp lt length_decay_fators_1)
  have row: "decayed_squared_error pred target ! n =
      sum_list (map2 (*) ?sq (repeat_interleave decay_fators_1 3))"
    using n by (simp add: decayed_squared_error_def mul_rows_def decay_fators_3_def)
  have "sum_list (map2 (*) ?sq (repeat_interleave decay_fators_1 3)) =
      (\<Sum>i<length decay_fators_1. \<Sum>c<3. ?sq ! (3 * i + c) * decay_fators_1 ! i)"
    by (rule sum_list_interleave3[OF len])
  also have "\<dots> = (\<Sum>i<PREDICT_LENGTH. \<Sum>c<3.
        (pred ! n ! (3 * i + c) - target ! n ! (3 * i + c)) ^ 2 * LOSS_DECAY_FACTOR ^ i)"
    unfolding length_decay_fators_1
  proof (intro sum.cong refl)
    fix i c assume "i \<in> {..<PREDICT_LENGTH}" "c \<in> {..<3::nat}"
    then have "3 * i + c < 3 * PREDICT_LENGTH" by auto
    then show "?sq ! (3 * i + c) * decay_fators_1 ! i =
        (pred ! n ! (3 * i + c) - target ! n ! (3 * i + c)) ^ 2 * LOSS_DECAY_FACTOR ^ i"
      using \<open>i \<in> {..<PREDICT_LENGTH}\<close> by (simp add: lp lt nth_decay_fators_1)
  qed
  finally show ?thesis using row by simp
qed

lemma nth_repeat_interleave:
  "i < length xs \<Longrightarrow> c < r \<Longrightarrow> repeat_interleave xs r ! (r * i + c) = xs ! i"
proof (induction xs arbitrary: i)
  case Nil then show ?case by simp
next
  case (Cons x xs)
  show ?case
  proof (cases i)
    case 0
    with Cons.prems show ?thesis by (simp add: repeat_interleave_def nth_append)
  next
    case (Suc j)
    with Cons.prems have "repeat_interleave xs r ! (r * j + c) = xs ! j"
      using Cons.IH[of j] by simp
    moreover have "r * Suc j + c = r + (r * j + c)" by simp
    ultimately show ?thesis using Suc
      by (simp add: repeat_interleave_def nth_append del: mult_Suc_right)
  qed
qed

lemma length_repeat_interleave: "length (repeat_interleave xs r) = r * length xs"
  by (induction xs) (simp_all add: repeat_interleave_def)

text \<open>
  Claim C5: the squared acceleration error of prediction step \<open>i\<close>, for \<open>i\<close> below
  PREDICT_LENGTH, is multiplied by LOSS_DECAY_FACTOR to the power \<open>i\<close>, which is 0.6 to
  the power \<open>i\<close>; the factor of a step is repeated over its 3 coordinates; and the loss
  of a particle is the sum over the coordinates of the weighted squared errors.
\<close>

theorem decay_weighting:
  assumes "n < length pred_acceleration" "n < length target_acceleration"
    and "length (pred_acceleration ! n) = 3 * PREDICT_LENGTH"
    and "length (target_acceleration ! n) = 3 * PREDICT_LENGTH"
  shows "LOSS_DECAY_FACTOR = 0.6
    \<and> length decay_fators_3 = 3 * PREDICT_LENGTH
    \<and> (\<forall>i<PREDICT_LENGTH. \<forall>c<3. decay_fators_3 ! (3 * i + c) = LOSS_DECAY_FACTOR ^ i)
    \<and> decayed_squared_error pred_acceleration target_acceleration ! n =
       (\<Sum>i<PREDICT_LENGTH. \<Sum>c<3.
          (pred_acceleration ! n ! (3 * i + c) - target_acceleration ! n ! (3 * i + c)) ^ 2
            * LOSS_DECAY_FACTOR ^ i)"
proof (intro conjI allI impI)
  show "LOSS_DECAY_FACTOR = 0.6" by (simp add: LOSS_DECAY_FACTOR_def)
  show "length decay_fators_3 = 3 * PREDICT_LENGTH"
    by (simp add: decay_fators_3_def length_repeat_interleave length_decay_fators_1)
  show "decay_fators_3 ! (3 * i + c) = LOSS_DECAY_FACTOR ^ i"
    if "i < PREDICT_LENGTH" "c < 3" for i c
    using that nth_repeat_interleave[of i decay_fators_1 c 3]
    by (simp add: decay_fators_3_def length_decay_fators_1 nth_decay_fators_1)
  show "decayed_squared_error pred_acceleration target_acceleration ! n =
       (\<Sum>i<PREDICT_LENGTH. \<Sum>c<3.
          (pred_acceleration ! n ! (3 * i + c) - target_acceleration ! n ! (3 * i + c)) ^ 2
            * LOSS_DECAY_FACTOR ^ i)"
    using assms by (rule nth_decayed_squared_error)
qed

text \<open>The decay weighting at a concrete input.\<close>

theorem decay_weighting_witness:
  "decayed_squared_error [[1, 2, 3], [4, 6, 8]] [[0, 0, 0], [1, 1, 1]] ! 1 = 83
   \<and> decay_fators_3 = [1, 1, 1]"
proof -
  have n: "1 < length [[1, 2, 3], [4, 6, 8::real]]" "1 < length [[0, 0, 0], [1, 1, 1::real]]"
    by simp_all
  have lp: "length ([[1, 2, 3], [4, 6, 8::real]] ! 1) = 3 * PREDICT_LENGTH"
    and lt: "length ([[0, 0, 0], [1, 1, 1::real]] ! 1) = 3 * PREDICT_LENGTH"
    by (simp_all add: PREDICT_LENGTH_def)
  from decay_weighting[OF n lp lt] show ?thesis
    by (simp add: PREDICT_LENGTH_def numeral_3_eq_3 decay_fators_3_def decay_fators_1_def
        repeat_interleave_def)
qed

lemma zip_as_nth:
  "length ts = length xs \<Longrightarrow> zip ts xs = map (\<lambda>n. (ts ! n, xs ! n)) [0..<length ts]"
  by (rule nth_equalityI) simp_all

lemma sum_list_where_zeros:
  "length ts = length xs \<Longrightarrow>
   sum_list (torch_where (map sel ts) xs (zeros (length xs))) =
   sum_list (map snd (filter (\<lambda>(t, x). sel t) (zip ts xs)))"
proof (induction ts xs rule: list_induct2)
  case Nil
  then show ?case by (simp add: torch_where_def zeros_def)
next
  case (Cons t ts x xs)
  then show ?case by (simp add: torch_where_def zeros_def)
qed

lemma filter_zip_index:
  assumes "length ts = length xs"
  shows "map snd (filter (\<lambda>(t, x). sel t) (zip ts xs)) =
     map (\<lambda>n. xs ! n) (filter (\<lambda>n. sel (ts ! n)) [0..<length ts])"
proof -
  have "filter (\<lambda>(t, x). sel t) (zip ts xs) =
      map (\<lambda>n. (ts ! n, xs ! n)) (filter (\<lambda>n. sel (ts ! n)) [0..<length ts])"
    by (simp add: zip_as_nth[OF assms] filter_map comp_def)
  then show ?thesis by (simp add: comp_def)
qed

lemma sum_mask_map: "sum_mask (map sel ts) = of_nat (length (filter sel ts))"
  by (simp add: sum_mask_def filter_map comp_def)

lemma masked_mean_eq:
  assumes "length ts = length xs"
  shows "sum_list (torch_where (map sel ts) xs (zeros (length xs))) / sum_mask (map sel ts) =
     mean_over_types sel ts xs"
  by (simp add: sum_list_where_zeros[OF assms] filter_zip_index[OF assms] sum_mask_map
      mean_over_types_def)

lemma non_kinematic_mask_eq:
  "logical_not (get_kinematic_mask ts) = map (\<lambda>t. t \<noteq> KINEMATIC_PARTICLE_ID) ts"
  by (simp add: logical_not_def get_kinematic_mask_def)

lemma length_decayed_squared_error:
  "length (decayed_squared_error pred target) = min (length pred) (length target)"
  by (simp add: decayed_squared_error_def mul_rows_def)

lemma startswith_anchor:
  "startswith (loss_name flag) ''anchor'' \<longleftrightarrow> flag = anchor \<or> flag = anchor_me"
  by (cases flag) (simp_all add: startswith_def)

lemma startswith_weighted:
  "startswith (loss_name flag) ''weighted'' \<longleftrightarrow> flag = weighted \<or> flag = weighted_anchor"
  by (cases flag) (simp_all add: startswith_def)

lemma Train_loss_masked_part:
  assumes lp: "length pred = length ts" and lt: "length target = length ts"
  shows "sum_list (torch_where (logical_not (get_kinematic_mask ts))
            (decayed_squared_error pred target)
            (zeros (length (decayed_squared_error pred target))))
          / sum_mask (logical_not (get_kinematic_mask ts)) =
         mean_over_types (\<lambda>t. t \<noteq> KINEMATIC_PARTICLE_ID) ts (decayed_squared_error pred target)"
  unfolding non_kinematic_mask_eq
  by (rule masked_mean_eq) (simp add: length_decayed_squared_error lp lt)

lemma Train_loss_plane_part:
  assumes lp: "length pred = length ts"
  shows "sum_list (torch_where (get_anchor_z_mask ts)
            (map (\<lambda>x. x * hd (map (\<lambda>i. LOSS_DECAY_FACTOR ^ i) [0..<1]))
               (map (\<lambda>row. (row ! 2) ^ 2) pred))
            (zeros (length (map (\<lambda>x. x * hd (map (\<lambda>i. LOSS_DECAY_FACTOR ^ i) [0..<1]))
               (map (\<lambda>row. (row ! 2) ^ 2) pred)))))
          / sum_mask (get_anchor_z_mask ts) =
         mean_over_types (\<lambda>t. t = ANCHOR_PLANE_PARTICLE_ID) ts (map (\<lambda>row. (row ! 2) ^ 2) pred)"
proof -
  have one: "map (\<lambda>x. x * hd (map (\<lambda>i. LOSS_DECAY_FACTOR ^ i) [0..<1]))
               (map (\<lambda>row. (row ! 2) ^ 2) pred) = map (\<lambda>row. (row ! 2) ^ 2) pred"
    by simp
  show ?thesis
    unfolding one get_anchor_z_mask_def
    by (rule masked_mean_eq) (simp add: lp)
qed

lemma Train_loss_anchor:
  assumes lp: "length pred = length ts" and lt: "length target = length ts"
  shows "Train_loss ext anchor c_plane c_me ts pred target pids =
     Inr (mean_over_types (\<lambda>t. t \<noteq> KINEMATIC_PARTICLE_ID) ts (decayed_squared_error pred target)
          + c_plane * mean_over_types (\<lambda>t. t = ANCHOR_PLANE_PARTICLE_ID) ts
                        (map (\<lambda>row. (row ! 2) ^ 2) pred))"
  unfolding Train_loss_def noise_masks_def Let_def
  by (simp only: startswith_anchor Train_loss_masked_part[OF lp lt] Train_loss_plane_part[OF lp]
      simp_thms if_True if_False prod.case option.case loss_flag.distinct)

lemma Train_loss_anchor_me:
  assumes lp: "length pred = length ts" and lt: "length target = length ts"
  shows "Train_loss ext anchor_me c_plane c_me ts pred target pids =
     Inr (mean_over_types (\<lambda>t. t \<noteq> KINEMATIC_PARTICLE_ID) ts (decayed_squared_error pred target)
          + c_plane * mean_over_types (\<lambda>t. t = ANCHOR_PLANE_PARTICLE_ID) ts
                        (map (\<lambda>row. (row ! 2) ^ 2) pred)
          + c_me * l1_loss ext (mul_rows pred decay_fators_3) (mul_rows target decay_fators_3))"
  unfolding Train_loss_def noise_masks_def Let_def
  by (simp only: startswith_anchor Train_loss_masked_part[OF lp lt] Train_loss_plane_part[OF lp]
      simp_thms if_True if_False prod.case option.case loss_flag.distinct)

lemma Train_loss_standard:
  assumes lp: "length pred = length ts" and lt: "length target = length ts"
  shows "Train_loss ext standard c_plane c_me ts pred target pids =
     Inr (mean_over_types (\<lambda>t. t \<noteq> KINEMATIC_PARTICLE_ID) ts (decayed_squared_error pred target))"
  unfolding Train_loss_def noise_masks_def Let_def
  by (simp only: startswith_anchor startswith_weighted Train_loss_masked_part[OF lp lt]
      simp_thms if_True if_False prod.case option.case loss_flag.distinct)

lemma Train_loss_me:
  assumes lp: "length pred = length ts" and lt: "length target = length ts"
  shows "Train_loss ext me c_plane c_me ts pred target pids =
     Inr (mean_over_types (\<lambda>t. t \<noteq> KINEMATIC_PARTICLE_ID) ts (decayed_squared_error pred target)
          + c_me * (l1_loss ext pred target * sum_list decay_fators_3))"
proof -
  have s: "sum_list (map (\<lambda>d. c * d) ds) = c * sum_list ds" for c :: real and ds
    by (induction ds) (simp_all add: algebra_simps)
  show ?thesis
    unfolding Train_loss_def noise_masks_def Let_def
    by (simp only: startswith_anchor startswith_weighted Train_loss_masked_part[OF lp lt] s
      simp_thms if_True if_False prod.case option.case loss_flag.distinct)
qed

lemma Train_loss_correlation:
  assumes lp: "length pred = length ts" and lt: "length target = length ts"
  shows "Train_loss ext correlation c_plane c_me ts pred target pids =
     Inr (mean_over_types (\<lambda>t. t \<noteq> KINEMATIC_PARTICLE_ID) ts (decayed_squared_error pred target)
          + correlation_term ext pred target pids 100)"
  unfolding Train_loss_def noise_masks_def Let_def
  by (simp only: startswith_anchor startswith_weighted Train_loss_masked_part[OF lp lt]
      simp_thms if_True if_False prod.case option.case loss_flag.distinct mult_1)


lemma sum_list_filter_index:
  "sum_list (map f (filter P [0..<N])) = (\<Sum>n<N. if P n then f n else (0::real))"
proof -
  have "sum_list (map f (filter P xs)) = sum_list (map (\<lambda>x. if P x then f x else 0) xs)"
    for xs :: "nat list"
    by (induction xs) simp_all
  then show ?thesis
    by (simp add: interv_sum_list_conv_sum_set_nat atLeast0LessThan)
qed

lemma mean_over_types_as_sum:
  "mean_over_types sel ts xs =
     (\<Sum>n<length ts. if sel (ts ! n) then xs ! n else 0)
       / of_nat (card {n. n < length ts \<and> sel (ts ! n)})"
  by (simp add: mean_over_types_def sum_list_filter_index length_filter_conv_card)

lemma Train_loss_decomposed:
  assumes fl: "flag \<in> {standard, anchor, anchor_me, me, correlation}"
    and lp: "length pred = length ts" and lt: "length target = length ts"
  shows "Train_loss ext flag c_plane c_me ts pred target pids =
     Inr (mean_over_types (\<lambda>t. t \<noteq> KINEMATIC_PARTICLE_ID) ts (decayed_squared_error pred target)
          + added_terms ext flag c_plane c_me ts pred target pids)"
  using fl
  by (auto simp: added_terms_def Train_loss_standard[OF lp lt] Train_loss_anchor[OF lp lt]
      Train_loss_anchor_me[OF lp lt] Train_loss_me[OF lp lt] Train_loss_correlation[OF lp lt])

lemma mean_over_types_cong:
  assumes "\<And>n. n < length ts \<Longrightarrow> sel (ts ! n) \<Longrightarrow> xs ! n = ys ! n"
  shows "mean_over_types sel ts xs = mean_over_types sel ts ys"
proof -
  have "map (\<lambda>n. xs ! n) (filter (\<lambda>n. sel (ts ! n)) [0..<length ts]) =
        map (\<lambda>n. ys ! n) (filter (\<lambda>n. sel (ts ! n)) [0..<length ts])"
    by (rule map_cong) (auto simp: assms)
  then show ?thesis
    unfolding mean_over_types_def by (rule arg_cong2[where f="\<lambda>a b. sum_list a / b"]) simp
qed

lemma nth_decayed_squared_error_row:
  "n < length pred \<Longrightarrow> n < length target \<Longrightarrow>
   decayed_squared_error pred target ! n =
     sum_list (map2 (*) (map2 (\<lambda>p t. (p - t) ^ 2) (pred ! n) (target ! n)) decay_fators_3)"
  by (simp add: decayed_squared_error_def mul_rows_def)

lemma masked_error_independent:
  assumes lp: "length pred = length ts" and lt: "length target = length ts"
    and lp': "length pred' = length ts" and lt': "length target' = length ts"
    and same: "\<forall>n<length ts. ts ! n \<noteq> KINEMATIC_PARTICLE_ID \<longrightarrow>
                 pred' ! n = pred ! n \<and> target' ! n = target ! n"
  shows "mean_over_types (\<lambda>t. t \<noteq> KINEMATIC_PARTICLE_ID) ts (decayed_squared_error pred' target') =
         mean_over_types (\<lambda>t. t \<noteq> KINEMATIC_PARTICLE_ID) ts (decayed_squared_error pred target)"
proof (rule mean_over_types_cong)
  fix n assume n: "n < length ts" and nk: "ts ! n \<noteq> KINEMATIC_PARTICLE_ID"
  with same have "pred' ! n = pred ! n" "target' ! n = target ! n" by auto
  then show "decayed_squared_error pred' target' ! n = decayed_squared_error pred target ! n"
    using n by (simp add: nth_decayed_squared_error_row lp lt lp' lt')
qed

lemma plane_term_independent:
  assumes lp: "length pred = length ts" and lp': "length pred' = length ts"
    and same: "\<forall>n<length ts. ts ! n \<noteq> KINEMATIC_PARTICLE_ID \<longrightarrow> pred' ! n = pred ! n"
  shows "mean_over_types (\<lambda>t. t = ANCHOR_PLANE_PARTICLE_ID) ts (map (\<lambda>row. (row ! 2) ^ 2) pred') =
         mean_over_types (\<lambda>t. t = ANCHOR_PLANE_PARTICLE_ID) ts (map (\<lambda>row. (row ! 2) ^ 2) pred)"
proof (rule mean_over_types_cong)
  fix n assume n: "n < length ts" and ap: "ts ! n = ANCHOR_PLANE_PARTICLE_ID"
  then have "ts ! n \<noteq> KINEMATIC_PARTICLE_ID"
    by (simp add: ANCHOR_PLANE_PARTICLE_ID_def KINEMATIC_PARTICLE_ID_def)
  with same n have "pred' ! n = pred ! n" by simp
  then show "map (\<lambda>row. (row ! 2) ^ 2) pred' ! n = map (\<lambda>row. (row ! 2) ^ 2) pred ! n"
    using n by (simp add: lp lp')
qed

lemma standard_anchor_independent:
  assumes fl: "flag = standard \<or> flag = anchor"
    and lp: "length pred = length ts" and lt: "length target = length ts"
    and lp': "length pred' = length ts" and lt': "length target' = length ts"
    and same: "\<forall>n<length ts. ts ! n \<noteq> KINEMATIC_PARTICLE_ID \<longrightarrow>
                 pred' ! n = pred ! n \<and> target' ! n = target ! n"
  shows "Train_loss ext flag c_plane c_me ts pred' target' pids =
         Train_loss ext flag c_plane c_me ts pred target pids"
proof -
  have m: "mean_over_types (\<lambda>t. t \<noteq> KINEMATIC_PARTICLE_ID) ts (decayed_squared_error pred' target') =
         mean_over_types (\<lambda>t. t \<noteq> KINEMATIC_PARTICLE_ID) ts (decayed_squared_error pred target)"
    by (rule masked_error_independent[OF lp lt lp' lt' same])
  have p: "mean_over_types (\<lambda>t. t = ANCHOR_PLANE_PARTICLE_ID) ts (map (\<lambda>row. (row ! 2) ^ 2) pred') =
         mean_over_types (\<lambda>t. t = ANCHOR_PLANE_PARTICLE_ID) ts (map (\<lambda>row. (row ! 2) ^ 2) pred)"
    using same by (intro plane_term_independent[OF lp lp']) simp
  from fl show ?thesis
  proof
    assume "flag = standard"
    then show ?thesis
      by (simp add: Train_loss_standard[OF lp lt] Train_loss_standard[OF lp' lt'] m)
  next
    assume "flag = anchor"
    then show ?thesis
      by (simp add: Train_loss_anchor[OF lp lt] Train_loss_anchor[OF lp' lt'] m p)
  qed
qed

text \<open>
  Claim C1, amended: in the standard, anchor, anchor_me, me and correlation variants the
  loss of a training step is the sum over the particles of the decay-weighted squared
  error, with zero in place of the error wherever the kinematic mask is true, divided by
  the number of particles that are not kinematic, plus the terms the variant adds. In
  the standard and anchor variants the loss does not depend on the accelerations of the
  kinematic particles. The L1 and correlation terms that the other three variants add
  are computed over all particles.
\<close>

theorem kinematic_particles_excluded_from_loss:
  assumes fl: "flag \<in> {standard, anchor, anchor_me, me, correlation}"
    and lp: "length pred_acceleration = length particle_types"
    and lt: "length target_acceleration = length particle_types"
    and nk: "\<exists>t \<in> set particle_types. t \<noteq> KINEMATIC_PARTICLE_ID"
    and ap: "flag \<in> {anchor, anchor_me} \<longrightarrow> ANCHOR_PLANE_PARTICLE_ID \<in> set particle_types"
  shows "Train_loss ext flag c_plane c_me particle_types pred_acceleration target_acceleration
           random_pids =
     Inr ((\<Sum>n<length particle_types.
             if get_kinematic_mask particle_types ! n then 0
             else decayed_squared_error pred_acceleration target_acceleration ! n)
            / of_nat (card {n. n < length particle_types
                               \<and> particle_types ! n \<noteq> KINEMATIC_PARTICLE_ID})
          + added_terms ext flag c_plane c_me particle_types pred_acceleration
              target_acceleration random_pids)
    \<and> (flag = standard \<or> flag = anchor \<longrightarrow>
         (\<forall>pred' target'.
            length pred' = length particle_types \<and> length target' = length particle_types
            \<and> (\<forall>n<length particle_types. particle_types ! n \<noteq> KINEMATIC_PARTICLE_ID \<longrightarrow>
                  pred' ! n = pred_acceleration ! n \<and> target' ! n = target_acceleration ! n)
            \<longrightarrow> Train_loss ext flag c_plane c_me particle_types pred' target' random_pids =
                Train_loss ext flag c_plane c_me particle_types pred_acceleration
                  target_acceleration random_pids))"
proof (intro conjI impI allI)
  have "(\<Sum>n<length particle_types.
             if get_kinematic_mask particle_types ! n then 0
             else decayed_squared_error pred_acceleration target_acceleration ! n) =
        (\<Sum>n<length particle_types.
             if particle_types ! n \<noteq> KINEMATIC_PARTICLE_ID
             then decayed_squared_error pred_acceleration target_acceleration ! n else 0)"
    by (rule sum.cong) (simp_all add: get_kinematic_mask_def)
  then show "Train_loss ext flag c_plane c_me particle_types pred_acceleration
           target_acceleration random_pids =
     Inr ((\<Sum>n<length particle_types.
             if get_kinematic_mask particle_types ! n then 0
             else decayed_squared_error pred_acceleration target_acceleration ! n)
            / of_nat (card {n. n < length particle_types
                               \<and> particle_types ! n \<noteq> KINEMATIC_PARTICLE_ID})
          + added_terms ext flag c_plane c_me particle_types pred_acceleration
              target_acceleration random_pids)"
    by (simp add: Train_loss_decomposed[OF fl lp lt] mean_over_types_as_sum)
next
  fix pred' target'
  assume f: "flag = standard \<or> flag = anchor"
    and h: "length pred' = length particle_types \<and> length target' = length particle_types
            \<and> (\<forall>n<length particle_types. particle_types ! n \<noteq> KINEMATIC_PARTICLE_ID \<longrightarrow>
                  pred' ! n = pred_acceleration ! n \<and> target' ! n = target_acceleration ! n)"
  from h have lp': "length pred' = length particle_types"
    and lt': "length target' = length particle_types"
    and same: "\<forall>n<length particle_types. particle_types ! n \<noteq> KINEMATIC_PARTICLE_ID \<longrightarrow>
                  pred' ! n = pred_acceleration ! n \<and> target' ! n = target_acceleration ! n"
    by simp_all
  show "Train_loss ext flag c_plane c_me particle_types pred' target' random_pids =
        Train_loss ext flag c_plane c_me particle_types pred_acceleration
          target_acceleration random_pids"
    by (rule standard_anchor_independent[OF f lp lt lp' lt' same])
qed

text \<open>
  Claim C1 as stated fails for the me variant: with the L1 loss of the tensor library,
  the mean absolute error, a change of the acceleration predicted for the kinematic
  particle 0 alone changes the loss.
\<close>

theorem me_loss_kinematic_counterexample:
  "Train_loss mae_externals me 30 3 [0, 2, 1] [[1, 2, 3], [4, 6, 8], [0, 0, 2]]
      [[0, 0, 0], [1, 1, 1], [0, 0, 0]] [] = Inr (133 / 2)
   \<and> Train_loss mae_externals me 30 3 [0, 2, 1] [[7, 7, 7], [4, 6, 8], [0, 0, 2]]
      [[0, 0, 0], [1, 1, 1], [0, 0, 0]] [] = Inr (163 / 2)
   \<and> get_kinematic_mask [0, 2, 1] = [True, False, False]"
  by (simp add: Train_loss_me mae_externals_def mean_absolute_error_def mean_over_types_def
      decayed_squared_error_def mul_rows_def decay_fators_3_def decay_fators_1_def
      repeat_interleave_def PREDICT_LENGTH_def KINEMATIC_PARTICLE_ID_def
      get_kinematic_mask_def numeral_3_eq_3 upt_rec[of _ "numeral _"] upt_rec[of _ "Suc _"])

text \<open>
  The amended claim C1 on an example with the standard loss: the kinematic particle 0
  has no part in the loss, whatever is predicted for it.
\<close>

theorem kinematic_particles_excluded_from_loss_witness:
  "Train_loss example_externals standard 30 3 [0, 2, 1] [[1, 2, 3], [4, 6, 8], [0, 0, 2]]
      [[0, 0, 0], [1, 1, 1], [0, 0, 0]] [] = Inr (87 / 2)
   \<and> Train_loss example_externals standard 30 3 [0, 2, 1] [[7, 7, 7], [4, 6, 8], [0, 0, 2]]
      [[0, 0, 0], [1, 1, 1], [0, 0, 0]] [] = Inr (87 / 2)"
proof -
  have fl: "standard \<in> {standard, anchor, anchor_me, me, correlation}" by simp
  have lp: "length [[1, 2, 3], [4, 6, 8], [0, 0, 2::real]] = length [0, 2, 1::int]"
    and lt: "length [[0, 0, 0], [1, 1, 1], [0, 0, 0::real]] = length [0, 2, 1::int]"
    by simp_all
  have nk: "\<exists>t \<in> set [0, 2, 1::int]. t \<noteq> KINEMATIC_PARTICLE_ID"
    by (simp add: KINEMATIC_PARTICLE_ID_def)
  have ap: "standard \<in> {anchor, anchor_me} \<longrightarrow> ANCHOR_PLANE_PARTICLE_ID \<in> set [0, 2, 1::int]"
    by simp
  have "{n. n < Suc (Suc (Suc 0)) \<and> [0, 2, 1::int] ! n \<noteq> 0} = {1, 2}"
    by (auto simp: less_Suc_eq)
  then have c: "card {n. n < Suc (Suc (Suc 0)) \<and> [0, 2, 1::int] ! n \<noteq> 0} = 2"
    by simp
  note th = kinematic_particles_excluded_from_loss[OF fl lp lt nk ap,
      of example_externals 30 3 "[]"]
  from th have a: "Train_loss example_externals standard 30 3 [0, 2, 1]
      [[1, 2, 3], [4, 6, 8], [0, 0, 2]] [[0, 0, 0], [1, 1, 1], [0, 0, 0]] [] = Inr (87 / 2)"
    by (simp add: KINEMATIC_PARTICLE_ID_def c added_terms_def get_kinematic_mask_def
        decayed_squared_error_def mul_rows_def decay_fators_3_def decay_fators_1_def
        repeat_interleave_def PREDICT_LENGTH_def numeral_3_eq_3)
  have same: "length [[7, 7, 7], [4, 6, 8], [0, 0, 2::real]] = length [0, 2, 1::int]
      \<and> length [[0, 0, 0], [1, 1, 1], [0, 0, 0::real]] = length [0, 2, 1::int]
      \<and> (\<forall>n<length [0, 2, 1::int]. [0, 2, 1::int] ! n \<noteq> KINEMATIC_PARTICLE_ID \<longrightarrow>
            [[7, 7, 7], [4, 6, 8], [0, 0, 2::real]] ! n = [[1, 2, 3], [4, 6, 8], [0, 0, 2]] ! n
          \<and> [[0, 0, 0], [1, 1, 1], [0, 0, 0::real]] ! n = [[0, 0, 0], [1, 1, 1], [0, 0, 0]] ! n)"
    by (simp add: KINEMATIC_PARTICLE_ID_def less_Suc_eq numeral_3_eq_3 all_conj_distrib)
  from th same have "Train_loss example_externals standard 30 3 [0, 2, 1]
      [[7, 7, 7], [4, 6, 8], [0, 0, 2]] [[0, 0, 0], [1, 1, 1], [0, 0, 0]] [] =
    Train_loss example_externals standard 30 3 [0, 2, 1]
      [[1, 2, 3], [4, 6, 8], [0, 0, 2]] [[0, 0, 0], [1, 1, 1], [0, 0, 0]] []"
    by blast
  with a show ?thesis by simp
qed

text \<open>
  Claim C4: with the loss flag anchor the loss is the mean over the non-kinematic
  particles of the decay-weighted squared acceleration error plus l_plane times the mean
  over the anchor-plane particles of the squared z component of the predicted
  acceleration; with anchor_me, l_me times the L1 loss of the decay-weighted
  accelerations is added.
\<close>

theorem anchor_loss_variants:
  assumes lp: "length pred_acceleration = length particle_types"
    and lt: "length target_acceleration = length particle_types"
    and rows: "\<forall>row \<in> set pred_acceleration. length row = 3 * PREDICT_LENGTH"
    and ap: "ANCHOR_PLANE_PARTICLE_ID \<in> set particle_types"
  shows "Train_loss ext anchor c_plane c_me particle_types pred_acceleration
           target_acceleration random_pids =
     Inr (mean_over_types (\<lambda>t. t \<noteq> KINEMATIC_PARTICLE_ID) particle_types
            (decayed_squared_error pred_acceleration target_acceleration)
          + c_plane * mean_over_types (\<lambda>t. t = ANCHOR_PLANE_PARTICLE_ID) particle_types
                        (map (\<lambda>row. (row ! 2) ^ 2) pred_acceleration))
   \<and> Train_loss ext anchor_me c_plane c_me particle_types pred_acceleration
           target_acceleration random_pids =
     Inr (mean_over_types (\<lambda>t. t \<noteq> KINEMATIC_PARTICLE_ID) particle_types
            (decayed_squared_error pred_acceleration target_acceleration)
          + c_plane * mean_over_types (\<lambda>t. t = ANCHOR_PLANE_PARTICLE_ID) particle_types
                        (map (\<lambda>row. (row ! 2) ^ 2) pred_acceleration)
          + c_me * l1_loss ext (mul_rows pred_acceleration decay_fators_3)
                     (mul_rows target_acceleration decay_fators_3))"
  using Train_loss_anchor[OF lp lt] Train_loss_anchor_me[OF lp lt] by simp

text \<open>The anchor and anchor_me losses at a concrete input.\<close>

theorem anchor_loss_variants_witness:
  "Train_loss example_externals anchor 30 3 [0, 2, 1] [[1, 2, 3], [4, 6, 8], [0, 0, 2]]
      [[0, 0, 0], [1, 1, 1], [0, 0, 0]] [] = Inr (327 / 2)
   \<and> Train_loss example_externals anchor_me 30 3 [0, 2, 1] [[1, 2, 3], [4, 6, 8], [0, 0, 2]]
      [[0, 0, 0], [1, 1, 1], [0, 0, 0]] [] = Inr (333 / 2)"
proof -
  have lp: "length [[1, 2, 3], [4, 6, 8], [0, 0, 2::real]] = length [0, 2, 1::int]"
    and lt: "length [[0, 0, 0], [1, 1, 1], [0, 0, 0::real]] = length [0, 2, 1::int]"
    by simp_all
  have rows: "\<forall>row \<in> set [[1, 2, 3], [4, 6, 8], [0, 0, 2::real]].
      length row = 3 * PREDICT_LENGTH"
    by (simp add: PREDICT_LENGTH_def)
  have ap: "ANCHOR_PLANE_PARTICLE_ID \<in> set [0, 2, 1::int]"
    by (simp add: ANCHOR_PLANE_PARTICLE_ID_def)
  from anchor_loss_variants[OF lp lt rows ap, of example_externals 30 3 "[]"]
  show ?thesis
    by (simp add: KINEMATIC_PARTICLE_ID_def ANCHOR_PLANE_PARTICLE_ID_def example_externals_def
      mean_over_types_def decayed_squared_error_def mul_rows_def decay_fators_3_def
      decay_fators_1_def repeat_interleave_def PREDICT_LENGTH_def upt_rec[of _ "numeral _"]
      upt_rec[of _ "Suc _"] numeral_3_eq_3)
qed

section \<open>Properties of the rollout\<close>

lemma torch_where_replicate:
  "length xs = d \<Longrightarrow> length ys = d \<Longrightarrow>
   torch_where (replicate d b) xs ys = (if b then xs else ys)"
proof (induction d arbitrary: xs ys)
  case 0
  then show ?case by (simp add: torch_where_def)
next
  case (Suc d)
  then obtain x xs' y ys' where "xs = x # xs'" "ys = y # ys'"
    by (cases xs; cases ys) auto
  with Suc show ?case by (auto simp: torch_where_def split: if_splits)
qed

lemma reshape_repeat_interleave:
  assumes "0 < d"
  shows "reshape_rows (repeat_interleave xs d) d = map (replicate d) xs"
proof -
  have len: "length (repeat_interleave xs d) = d * length xs"
    by (rule length_repeat_interleave)
  have row: "take d (drop (i * d) (repeat_interleave xs d)) = replicate d (xs ! i)"
    if "i < length xs" for i
    using that
  proof (induction xs arbitrary: i)
    case Nil
    then show ?case by simp
  next
    case (Cons x xs)
    show ?case
    proof (cases i)
      case 0
      then show ?thesis by (simp add: repeat_interleave_def)
    next
      case (Suc j)
      with Cons.prems have j: "j < length xs" by simp
      have "drop (Suc j * d) (repeat_interleave (x # xs) d) = drop (j * d) (repeat_interleave xs d)"
        by (simp add: repeat_interleave_def)
      with Cons.IH[OF j] Suc show ?thesis by simp
    qed
  qed
  show ?thesis
    using assms by (intro nth_equalityI) (simp_all add: reshape_rows_def len row)
qed

lemma nth_where_rows:
  assumes "i < length cond" "i < length xs" "i < length ys"
  shows "where_rows cond xs ys ! i = torch_where (cond ! i) (xs ! i) (ys ! i)"
  using assms by (simp add: where_rows_def)

lemma length_where_rows:
  "length (where_rows cond xs ys) = min (length cond) (min (length xs) (length ys))"
  by (simp add: where_rows_def)

lemma shape_last_shaped: "shaped n d xs \<Longrightarrow> 0 < n \<Longrightarrow> shape_last xs = d"
  by (cases xs) (auto simp: shaped_def shape_last_def)

lemma next_position_of_value:
  assumes ctx: "global_context_step_of (step_context feats) k = Inr c"
    and d: "0 < d" and n0: "0 < n"
    and pred: "shaped n d (inference w params current feats c)"
  shows "next_position_of w params feats k current =
     Inr (where_rows (map (replicate d) (get_kinematic_mask (particle_type feats)))
            (map (\<lambda>p. p ! k) (map (drop INPUT_SEQUENCE_LENGTH) (position feats)))
            (inference w params current feats c))"
  by (simp add: next_position_of_def ctx Let_def shape_last_shaped[OF pred n0]
      reshape_repeat_interleave[OF d])

text \<open>
  Claim C3: at a rollout step the emitted next position of a particle whose kinematic
  mask is true is the ground-truth position of that step, and the emitted next position
  of every other particle is the position the simulator predicts; the emitted position
  is what the step appends to the predictions.
\<close>

theorem kinematic_positions_externally_driven:
  assumes ctx: "global_context_step_of (step_context feats) k = Inr c"
    and nt: "length (particle_type feats) = n" and np: "length (position feats) = n"
    and d: "0 < d" and n0: "0 < n"
    and pred: "shaped n d (inference w params (current_positions s) feats c)"
    and gt: "\<forall>p \<in> set (position feats).
               INPUT_SEQUENCE_LENGTH + k < length p \<and> length (p ! (INPUT_SEQUENCE_LENGTH + k)) = d"
  shows "\<exists>next_position s'.
      next_position_of w params feats k (current_positions s) = Inr next_position
    \<and> rollout_step w params refine feats k s = Inr s'
    \<and> updated_predictions s' = updated_predictions s @ [next_position]
    \<and> length next_position = n
    \<and> (\<forall>i<n. next_position ! i =
          (if get_kinematic_mask (particle_type feats) ! i
           then position feats ! i ! (INPUT_SEQUENCE_LENGTH + k)
           else inference w params (current_positions s) feats c ! i))"
proof -
  let ?pred = "inference w params (current_positions s) feats c"
  let ?gt = "map (\<lambda>p. p ! k) (map (drop INPUT_SEQUENCE_LENGTH) (position feats))"
  let ?m = "map (replicate d) (get_kinematic_mask (particle_type feats))"
  let ?np = "where_rows ?m ?gt ?pred"
  have v: "next_position_of w params feats k (current_positions s) = Inr ?np"
    by (rule next_position_of_value[OF ctx d n0 pred])
  have lp: "length ?pred = n" using pred by (simp add: shaped_def)
  have len: "length ?np = n"
    by (simp add: length_where_rows get_kinematic_mask_def nt np lp)
  have row: "?np ! i = (if get_kinematic_mask (particle_type feats) ! i
           then position feats ! i ! (INPUT_SEQUENCE_LENGTH + k) else ?pred ! i)"
    if i: "i < n" for i
  proof -
    have pin: "position feats ! i \<in> set (position feats)" using i np by simp
    with gt have g1: "INPUT_SEQUENCE_LENGTH + k < length (position feats ! i)"
      and g2: "length (position feats ! i ! (INPUT_SEQUENCE_LENGTH + k)) = d" by auto
    have gi: "?gt ! i = position feats ! i ! (INPUT_SEQUENCE_LENGTH + k)"
      using i np g1 by simp
    have lg: "length (?gt ! i) = d" unfolding gi by (rule g2)
    have "?pred ! i \<in> set ?pred" using i lp by simp
    with pred have pi: "length (?pred ! i) = d" by (simp add: shaped_def)
    have mi: "?m ! i = replicate d (get_kinematic_mask (particle_type feats) ! i)"
      using i nt by (simp add: get_kinematic_mask_def)
    have "?np ! i = torch_where (?m ! i) (?gt ! i) (?pred ! i)"
      using i nt np lp by (intro nth_where_rows) (simp_all add: get_kinematic_mask_def)
    also have "\<dots> = (if get_kinematic_mask (particle_type feats) ! i
           then ?gt ! i else ?pred ! i)"
      unfolding mi by (rule torch_where_replicate[OF lg pi])
    finally show ?thesis unfolding gi .
  qed
  have st: "rollout_step w params refine feats k s =
      Inr \<lparr>current_positions = cat_step (current_positions s) (if \<not> refine then ?np else ?gt),
           updated_predictions = updated_predictions s @ [?np]\<rparr>"
    by (simp add: rollout_step_def v Let_def)
  show ?thesis
    using v st len row by auto
qed

lemma global_context_step_of_ok:
  assumes "k + INPUT_SEQUENCE_LENGTH < length ctx"
  shows "\<exists>c. global_context_step_of ctx k = Inr c"
  using assms by (simp add: global_context_step_of_def Let_def min_def)

lemma next_position_of_ok:
  assumes "k + INPUT_SEQUENCE_LENGTH < length (step_context feats)"
  shows "\<exists>np. next_position_of w params feats k current = Inr np"
proof -
  from global_context_step_of_ok[OF assms] obtain c
    where "global_context_step_of (step_context feats) k = Inr c" ..
  then show ?thesis by (simp add: next_position_of_def Let_def)
qed

lemma rollout_step_unfold:
  assumes "next_position_of w params feats k (current_positions s) = Inr np"
  shows "rollout_step w params refine feats k s =
     Inr \<lparr>current_positions = cat_step (current_positions s)
              (if refine
               then map (\<lambda>p. p ! k) (map (drop INPUT_SEQUENCE_LENGTH) (position feats))
               else np),
          updated_predictions = updated_predictions s @ [np]\<rparr>"
  by (simp add: rollout_step_def assms Let_def)

lemma rollout_step_ok:
  assumes "k + INPUT_SEQUENCE_LENGTH < length (step_context feats)"
  shows "\<exists>s'. rollout_step w params refine feats k s = Inr s'"
proof -
  from next_position_of_ok[OF assms] obtain np
    where "next_position_of w params feats k (current_positions s) = Inr np" ..
  then show ?thesis by (simp add: rollout_step_unfold)
qed

lemma rollout_loop_append:
  "rollout_loop w params refine feats (xs @ ys) s =
     (case rollout_loop w params refine feats xs s of
        Inl e \<Rightarrow> Inl e
      | Inr s' \<Rightarrow> rollout_loop w params refine feats ys s')"
  by (induction xs arbitrary: s) (simp_all split: sum.splits)

lemma rollout_loop_Suc:
  "rollout_loop w params refine feats [0..<Suc k] s =
     (case rollout_loop w params refine feats [0..<k] s of
        Inl e \<Rightarrow> Inl e
      | Inr s' \<Rightarrow> rollout_step w params refine feats k s')"
  by (simp add: rollout_loop_append split: sum.splits)

lemma rollout_loop_ok:
  assumes "\<forall>k \<in> set steps. k + INPUT_SEQUENCE_LENGTH < length (step_context feats)"
  shows "\<exists>s'. rollout_loop w params refine feats steps s = Inr s'"
  using assms
proof (induction steps arbitrary: s)
  case Nil
  then show ?case by simp
next
  case (Cons k steps)
  then have "k + INPUT_SEQUENCE_LENGTH < length (step_context feats)" by simp
  from rollout_step_ok[OF this] obtain s1
    where "rollout_step w params refine feats k s = Inr s1" ..
  with Cons show ?case by simp
qed

lemma cat_step_window:
  assumes "\<forall>p \<in> set window. length p = L" and "0 < L"
  shows "\<forall>p \<in> set (cat_step window newest). length p = L"
proof
  fix p assume "p \<in> set (cat_step window newest)"
  then obtain st x where mem: "(st, x) \<in> set (zip (map (drop 1) window) newest)"
    and p: "p = st @ [x]"
    by (auto simp: cat_step_def)
  from mem have "st \<in> set (map (drop 1) window)" by (rule set_zip_leftD)
  then obtain q where "q \<in> set window" "st = drop 1 q" by auto
  with assms p show "length p = L" by auto
qed

lemma nth_cat_step:
  assumes "i < length window" "i < length newest"
  shows "cat_step window newest ! i = drop 1 (window ! i) @ [newest ! i]"
  using assms by (simp add: cat_step_def)

lemma rollout_step_window:
  assumes "rollout_step w params refine feats k s = Inr s'"
    and "\<forall>p \<in> set (current_positions s). length p = L" and "0 < L"
  shows "\<forall>p \<in> set (current_positions s'). length p = L"
proof -
  from assms(1) obtain np where
    np: "next_position_of w params feats k (current_positions s) = Inr np"
    by (auto simp: rollout_step_def split: sum.splits)
  from assms(1) have "current_positions s' = cat_step (current_positions s)
              (if refine
               then map (\<lambda>p. p ! k) (map (drop INPUT_SEQUENCE_LENGTH) (position feats))
               else np)"
    unfolding rollout_step_unfold[OF np] by auto
  then show ?thesis using cat_step_window[OF assms(2,3)] by simp
qed

lemma rollout_loop_window:
  assumes "rollout_loop w params refine feats steps s = Inr s'"
    and "\<forall>p \<in> set (current_positions s). length p = L" and "0 < L"
  shows "\<forall>p \<in> set (current_positions s'). length p = L"
  using assms
proof (induction steps arbitrary: s)
  case Nil
  then show ?case by simp
next
  case (Cons k steps)
  from Cons.prems(1) obtain s1 where s1: "rollout_step w params refine feats k s = Inr s1"
    and rest: "rollout_loop w params refine feats steps s1 = Inr s'"
    by (auto split: sum.splits)
  from rollout_step_window[OF s1 Cons.prems(2,3)]
  have "\<forall>p \<in> set (current_positions s1). length p = L" .
  from Cons.IH[OF rest this Cons.prems(3)] show ?case .
qed

lemma num_steps_of_rect:
  assumes "\<forall>p \<in> set (position feats). length p = t" and "0 < num_steps_of feats"
  shows "num_steps_of feats = t - INPUT_SEQUENCE_LENGTH" and "INPUT_SEQUENCE_LENGTH < t"
proof -
  from assms(2) obtain p ps where ps: "position feats = p # ps"
    by (cases "position feats") (auto simp: num_steps_of_def shape_last_def)
  with assms(1) have "length p = t" by simp
  with ps show "num_steps_of feats = t - INPUT_SEQUENCE_LENGTH"
    by (simp add: num_steps_of_def shape_last_def)
  with assms(2) show "INPUT_SEQUENCE_LENGTH < t" by simp
qed

lemma initial_state_window:
  assumes "\<forall>p \<in> set (position feats). length p = t" and "INPUT_SEQUENCE_LENGTH \<le> t"
  shows "\<forall>p \<in> set (current_positions (initial_state feats)). length p = INPUT_SEQUENCE_LENGTH"
  using assms by (auto simp: initial_state_def)

text \<open>
  Claim C7: INPUT_SEQUENCE_LENGTH is 5, and before and after every rollout step the
  current position window, which is the input of the simulator at the next step, has
  exactly INPUT_SEQUENCE_LENGTH time steps for every particle, whichever position the
  step appends.
\<close>

theorem window_length_invariant:
  assumes rect: "\<forall>p \<in> set (position feats). length p = t"
    and steps: "0 < num_steps_of feats"
    and ctx: "num_steps_of feats + INPUT_SEQUENCE_LENGTH \<le> length (step_context feats)"
    and k: "k \<le> num_steps_of feats"
  shows "INPUT_SEQUENCE_LENGTH = 5
    \<and> (\<exists>s. rollout_loop w params refine feats [0..<k] (initial_state feats) = Inr s
          \<and> (\<forall>p \<in> set (current_positions s). length p = INPUT_SEQUENCE_LENGTH))"
proof -
  have "\<forall>j \<in> set [0..<k]. j + INPUT_SEQUENCE_LENGTH < length (step_context feats)"
    using ctx k by auto
  from rollout_loop_ok[OF this] obtain s
    where s: "rollout_loop w params refine feats [0..<k] (initial_state feats) = Inr s" ..
  have "INPUT_SEQUENCE_LENGTH \<le> t"
    using num_steps_of_rect(2)[OF rect steps] by simp
  from initial_state_window[OF rect this]
  have "\<forall>p \<in> set (current_positions s). length p = INPUT_SEQUENCE_LENGTH"
    by (rule rollout_loop_window[OF s]) (simp add: INPUT_SEQUENCE_LENGTH_def)
  with s show ?thesis by (auto simp: INPUT_SEQUENCE_LENGTH_def)
qed

text \<open>
  Claim C2, amended: the window after a rollout step is the window before it with the
  oldest time step dropped and one position appended. When rollout_refine is False the
  appended position is the one the step emitted, the simulator's output after kinematic
  masking; when rollout_refine is True it is the ground-truth position of the step.
\<close>

theorem rollout_window_update:
  assumes k: "k < num_steps_of feats"
    and ctx: "num_steps_of feats + INPUT_SEQUENCE_LENGTH \<le> length (step_context feats)"
  shows "\<exists>s np s'.
      rollout_loop w params refine feats [0..<k] (initial_state feats) = Inr s
    \<and> next_position_of w params feats k (current_positions s) = Inr np
    \<and> rollout_loop w params refine feats [0..<Suc k] (initial_state feats) = Inr s'
    \<and> updated_predictions s' = updated_predictions s @ [np]
    \<and> current_positions s' =
        (if refine
         then cat_step (current_positions s)
                (map (\<lambda>p. p ! k) (map (drop INPUT_SEQUENCE_LENGTH) (position feats)))
         else cat_step (current_positions s) np)
    \<and> (\<not> refine \<longrightarrow>
         (\<forall>i. i < length (current_positions s) \<and> i < length np \<longrightarrow>
            current_positions s' ! i = drop 1 (current_positions s ! i) @ [np ! i]))"
proof -
  have "\<forall>j \<in> set [0..<k]. j + INPUT_SEQUENCE_LENGTH < length (step_context feats)"
    using ctx k by auto
  from rollout_loop_ok[OF this] obtain s
    where s: "rollout_loop w params refine feats [0..<k] (initial_state feats) = Inr s" ..
  have "k + INPUT_SEQUENCE_LENGTH < length (step_context feats)" using ctx k by simp
  from next_position_of_ok[OF this] obtain np
    where np: "next_position_of w params feats k (current_positions s) = Inr np" ..
  let ?s' = "\<lparr>current_positions = cat_step (current_positions s)
              (if refine
               then map (\<lambda>p. p ! k) (map (drop INPUT_SEQUENCE_LENGTH) (position feats))
               else np),
          updated_predictions = updated_predictions s @ [np]\<rparr>"
  have s': "rollout_loop w params refine feats [0..<Suc k] (initial_state feats) = Inr ?s'"
    unfolding rollout_loop_Suc by (simp add: s rollout_step_unfold[OF np])
  show ?thesis
    using s np s' by (intro exI[of _ s] exI[of _ np] exI[of _ ?s']) (simp add: nth_cat_step)
qed

subsection \<open>The example trajectory\<close>

lemmas rollout_eval =
  example_world_def example_features_def initial_state_def rollout_step_def
  next_position_of_def global_context_step_of_def Let_def INPUT_SEQUENCE_LENGTH_def
  get_kinematic_mask_def KINEMATIC_PARTICLE_ID_def repeat_interleave_def reshape_rows_def
  shape_last_def where_rows_def torch_where_def cat_step_def num_steps_of_def shaped_def

lemma upt_2: "[0..<2] = [0, 1]" and upt_1: "[0..<1] = [0]"
  by (simp_all add: upt_rec)

lemma example_num_steps: "num_steps_of example_features = 2"
  by (simp add: rollout_eval)

lemma example_context_step:
  "global_context_step_of (step_context example_features) 0 = Inr [[10, 20, 30, 40, 50, 0]]"
  by (simp add: rollout_eval)

lemma example_next_position:
  "next_position_of example_world 7 example_features 0
     (current_positions (initial_state example_features)) = Inr [[5, 0], [1, 6]]"
  by (simp add: rollout_eval upt_1 numeral_2_eq_2)

lemma example_rollout_1:
  "rollout_loop example_world 7 False example_features [0..<1] (initial_state example_features) =
     Inr \<lparr>current_positions =
            [[[1, 0], [2, 0], [3, 0], [4, 0], [5, 0]],
             [[0, 2], [0, 3], [0, 4], [0, 5], [1, 6]]],
          updated_predictions = [[[5, 0], [1, 6]]]\<rparr>"
  by (simp add: rollout_eval upt_1 numeral_2_eq_2)

lemma example_rollout_2:
  "rollout_loop example_world 7 False example_features [0..<2] (initial_state example_features) =
     Inr \<lparr>current_positions =
            [[[2, 0], [3, 0], [4, 0], [5, 0], [6, 0]],
             [[0, 3], [0, 4], [0, 5], [1, 6], [2, 7]]],
          updated_predictions = [[[5, 0], [1, 6]], [[6, 0], [2, 7]]]\<rparr>"
  by (simp add: rollout_eval upt_2 upt_1 numeral_2_eq_2)

lemma example_refine_1:
  "rollout_loop example_world 7 True example_features [0..<1] (initial_state example_features) =
     Inr \<lparr>current_positions =
            [[[1, 0], [2, 0], [3, 0], [4, 0], [5, 0]],
             [[0, 2], [0, 3], [0, 4], [0, 5], [0, 7]]],
          updated_predictions = [[[5, 0], [1, 6]]]\<rparr>"
  by (simp add: rollout_eval upt_1 numeral_2_eq_2)

text \<open>Claim C3 on the example: the kinematic particle 0 takes the ground truth.\<close>

theorem kinematic_positions_externally_driven_witness:
  "next_position_of example_world 7 example_features 0
     (current_positions (initial_state example_features)) = Inr [[5, 0], [1, 6]]
   \<and> get_kinematic_mask (particle_type example_features) = [True, False]
   \<and> position example_features ! 0 ! (INPUT_SEQUENCE_LENGTH + 0) = [5, 0]
   \<and> inference example_world 7 (current_positions (initial_state example_features))
        example_features [[10, 20, 30, 40, 50, 0]] ! 1 = [1, 6]"
proof -
  have nt: "length (particle_type example_features) = 2"
    and np: "length (position example_features) = 2"
    by (simp_all add: example_features_def)
  have pred: "shaped 2 2 (inference example_world 7
      (current_positions (initial_state example_features)) example_features
      [[10, 20, 30, 40, 50, 0]])"
    by (simp add: rollout_eval)
  have gt: "\<forall>p \<in> set (position example_features).
      INPUT_SEQUENCE_LENGTH + 0 < length p \<and> length (p ! (INPUT_SEQUENCE_LENGTH + 0)) = 2"
    by (simp add: rollout_eval)
  from kinematic_positions_externally_driven[OF example_context_step nt np _ _ pred gt,
      of False]
  obtain next_position where
    v: "next_position_of example_world 7 example_features 0
          (current_positions (initial_state example_features)) = Inr next_position"
    and r: "\<forall>i<2. next_position ! i =
          (if get_kinematic_mask (particle_type example_features) ! i
           then position example_features ! i ! (INPUT_SEQUENCE_LENGTH + 0)
           else inference example_world 7 (current_positions (initial_state example_features))
                  example_features [[10, 20, 30, 40, 50, 0]] ! i)"
    by auto
  from v have "next_position = [[5, 0], [1, 6]]"
    by (simp add: example_next_position)
  with v r show ?thesis
    by (simp add: rollout_eval)
qed

text \<open>Claim C7 on the example: after both steps each particle has five time steps.\<close>

theorem window_length_invariant_witness:
  "rollout_loop example_world 7 False example_features [0..<2] (initial_state example_features) =
     Inr \<lparr>current_positions =
            [[[2, 0], [3, 0], [4, 0], [5, 0], [6, 0]],
             [[0, 3], [0, 4], [0, 5], [1, 6], [2, 7]]],
          updated_predictions = [[[5, 0], [1, 6]], [[6, 0], [2, 7]]]\<rparr>
   \<and> map length [[[2, 0], [3, 0], [4, 0], [5, 0], [6, 0::real]],
             [[0, 3], [0, 4], [0, 5], [1, 6], [2, 7]]] = [5, 5]"
proof -
  have rect: "\<forall>p \<in> set (position example_features). length p = 7"
    by (simp add: example_features_def)
  have steps: "0 < num_steps_of example_features"
    and k: "2 \<le> num_steps_of example_features"
    by (simp_all add: example_num_steps)
  have ctx: "num_steps_of example_features + INPUT_SEQUENCE_LENGTH
      \<le> length (step_context example_features)"
    by (simp add: example_num_steps) (simp add: rollout_eval)
  from window_length_invariant[OF rect steps ctx k, of example_world 7 False]
  obtain s where
    "rollout_loop example_world 7 False example_features [0..<2]
       (initial_state example_features) = Inr s"
    and "\<forall>p \<in> set (current_positions s). length p = INPUT_SEQUENCE_LENGTH"
    by auto
  then show ?thesis
    by (simp add: example_rollout_2)
qed

text \<open>
  Claim C2 as stated fails when rollout_refine is True: after the first step of the
  example the window ends with the ground truth [0, 7] of the second particle, not with
  the emitted position [1, 6].
\<close>

theorem autoregressive_window_counterexample:
  "next_position_of example_world 7 example_features 0
     (current_positions (initial_state example_features)) = Inr [[5, 0], [1, 6]]
   \<and> rollout_loop example_world 7 True example_features [0..<1] (initial_state example_features) =
     Inr \<lparr>current_positions =
            [[[1, 0], [2, 0], [3, 0], [4, 0], [5, 0]],
             [[0, 2], [0, 3], [0, 4], [0, 5], [0, 7]]],
          updated_predictions = [[[5, 0], [1, 6]]]\<rparr>
   \<and> cat_step (current_positions (initial_state example_features)) [[5, 0], [1, 6]] \<noteq>
       [[[1, 0], [2, 0], [3, 0], [4, 0], [5, 0]],
        [[0, 2], [0, 3], [0, 4], [0, 5], [0, 7]]]"
  by (simp add: example_next_position example_refine_1) (simp add: rollout_eval)

text \<open>The amended claim C2 on the example, for both values of rollout_refine.\<close>

theorem rollout_window_update_witness:
  "rollout_loop example_world 7 False example_features [0..<Suc 0] (initial_state example_features) =
     Inr \<lparr>current_positions =
            [[[1, 0], [2, 0], [3, 0], [4, 0], [5, 0]],
             [[0, 2], [0, 3], [0, 4], [0, 5], [1, 6]]],
          updated_predictions = [[[5, 0], [1, 6]]]\<rparr>
   \<and> rollout_loop example_world 7 True example_features [0..<Suc 0] (initial_state example_features) =
     Inr \<lparr>current_positions =
            [[[1, 0], [2, 0], [3, 0], [4, 0], [5, 0]],
             [[0, 2], [0, 3], [0, 4], [0, 5], [0, 7]]],
          updated_predictions = [[[5, 0], [1, 6]]]\<rparr>"
proof -
  have k: "0 < num_steps_of example_features"
    by (simp add: example_num_steps)
  have ctx: "num_steps_of example_features + INPUT_SEQUENCE_LENGTH
      \<le> length (step_context example_features)"
    by (simp add: example_num_steps) (simp add: rollout_eval)
  have init: "rollout_loop example_world 7 refine example_features [0..<0]
      (initial_state example_features) = Inr (initial_state example_features)" for refine
    by simp
  from rollout_window_update[OF k ctx, of example_world 7 False]
  obtain s np s' where
    "rollout_loop example_world 7 False example_features [0..<0]
       (initial_state example_features) = Inr s"
    "next_position_of example_world 7 example_features 0 (current_positions s) = Inr np"
    "rollout_loop example_world 7 False example_features [0..<Suc 0]
       (initial_state example_features) = Inr s'"
    "updated_predictions s' = updated_predictions s @ [np]"
    "current_positions s' = cat_step (current_positions s) np"
    by auto
  then have a: "rollout_loop example_world 7 False example_features [0..<Suc 0]
       (initial_state example_features) =
     Inr \<lparr>current_positions =
            [[[1, 0], [2, 0], [3, 0], [4, 0], [5, 0]],
             [[0, 2], [0, 3], [0, 4], [0, 5], [1, 6]]],
          updated_predictions = [[[5, 0], [1, 6]]]\<rparr>"
    using example_rollout_1 by (simp add: upt_1)
  from rollout_window_update[OF k ctx, of example_world 7 True]
  obtain t where
    "rollout_loop example_world 7 True example_features [0..<Suc 0]
       (initial_state example_features) = Inr t"
    by auto
  then have b: "rollout_loop example_world 7 True example_features [0..<Suc 0]
       (initial_state example_features) =
     Inr \<lparr>current_positions =
            [[[1, 0], [2, 0], [3, 0], [4, 0], [5, 0]],
             [[0, 2], [0, 3], [0, 4], [0, 5], [0, 7]]],
          updated_predictions = [[[5, 0], [1, 6]]]\<rparr>"
    using example_refine_1 by (simp add: upt_1)
  from a b show ?thesis by simp
qed

section \<open>Properties of the evaluation run\<close>







lemma rollout_loop_predictions:
  assumes "rollout_loop w params refine feats [0..<n] s0 = Inr final"
  shows "length (updated_predictions final) = length (updated_predictions s0) + n
    \<and> (\<forall>k<n. \<exists>sk. rollout_loop w params refine feats [0..<k] s0 = Inr sk
          \<and> next_position_of w params feats k (current_positions sk) =
              Inr (updated_predictions final ! (length (updated_predictions s0) + k)))"
  using assms
proof (induction n arbitrary: final)
  case 0
  then show ?case by simp
next
  case (Suc n)
  from Suc.prems obtain sn where sn: "rollout_loop w params refine feats [0..<n] s0 = Inr sn"
    and st: "rollout_step w params refine feats n sn = Inr final"
    unfolding rollout_loop_Suc by (auto split: sum.splits)
  from st obtain np where
    np: "next_position_of w params feats n (current_positions sn) = Inr np"
    by (auto simp: rollout_step_def split: sum.splits)
  from st have up: "updated_predictions final = updated_predictions sn @ [np]"
    unfolding rollout_step_unfold[OF np] by auto
  from Suc.IH[OF sn] have len: "length (updated_predictions sn) = length (updated_predictions s0) + n"
    and ih: "\<forall>k<n. \<exists>sk. rollout_loop w params refine feats [0..<k] s0 = Inr sk
          \<and> next_position_of w params feats k (current_positions sk) =
              Inr (updated_predictions sn ! (length (updated_predictions s0) + k))"
    by auto
  have "\<exists>sk. rollout_loop w params refine feats [0..<k] s0 = Inr sk
          \<and> next_position_of w params feats k (current_positions sk) =
              Inr (updated_predictions final ! (length (updated_predictions s0) + k))"
    if "k < Suc n" for k
  proof (cases "k < n")
    case True
    with ih obtain sk where "rollout_loop w params refine feats [0..<k] s0 = Inr sk"
      "next_position_of w params feats k (current_positions sk) =
              Inr (updated_predictions sn ! (length (updated_predictions s0) + k))"
      by auto
    moreover have "updated_predictions final ! (length (updated_predictions s0) + k) =
        updated_predictions sn ! (length (updated_predictions s0) + k)"
      using True len by (simp add: up nth_append)
    ultimately show ?thesis by auto
  next
    case False
    with that have "k = n" by simp
    moreover have "updated_predictions final ! (length (updated_predictions s0) + n) = np"
      using len by (simp add: up nth_append)
    ultimately show ?thesis using sn np by auto
  qed
  then show ?case using len up by simp
qed

lemma dict_set_metadata:
  "dict_set
     [(''initial_positions'', a), (''predicted_rollout'', b), (''ground_truth_rollout'', c),
      (''particle_types'', d), (''global_context'', e)] ''metadata'' m =
     [(''initial_positions'', a), (''predicted_rollout'', b), (''ground_truth_rollout'', c),
      (''particle_types'', d), (''global_context'', e), (''metadata'', m)]"
  by simp

lemma rollout_op_of_value:
  assumes steps: "0 < num_steps_of feats"
    and ctx: "num_steps_of feats + INPUT_SEQUENCE_LENGTH \<le> length (step_context feats)"
  shows "rollout_op_of w params refine metadata feats =
     Inr (rollout_dict metadata feats (emitted_positions w params refine feats))"
proof -
  have "\<forall>j \<in> set [0..<num_steps_of feats].
      j + INPUT_SEQUENCE_LENGTH < length (step_context feats)"
    using ctx by auto
  from rollout_loop_ok[OF this] obtain s where
    s: "rollout_loop w params refine feats [0..<num_steps_of feats] (initial_state feats) = Inr s" ..
  from rollout_loop_predictions[OF s] have "length (updated_predictions s) = num_steps_of feats"
    by (simp add: initial_state_def)
  with steps have ne: "updated_predictions s \<noteq> []" by auto
  have em: "emitted_positions w params refine feats = updated_predictions s"
    by (simp add: emitted_positions_def s)
  have s': "rollout_loop w params refine feats
      [0..<shape_last (map (drop INPUT_SEQUENCE_LENGTH) (position feats))]
      \<lparr>current_positions = map (take INPUT_SEQUENCE_LENGTH) (position feats),
       updated_predictions = []\<rparr> = Inr s"
    using s by (simp add: num_steps_of_def initial_state_def)
  show ?thesis
    unfolding rollout_op_of_def Let_def s' em rollout_dict_def
    by (simp only: sum.case ne if_False dict_set_metadata)
qed


lemma get_input_fn_rollout:
  assumes "read_metadata fs path = Inr metadata"
  shows "get_input_fn fs path b ''rollout'' sp =
     (if b = 1 then Inr (Finite (rollout_examples fs path sp)) else Inl AssertionError)"
  by (simp add: get_input_fn_def assms startswith_def)

lemma Test_unfold:
  assumes meta: "read_metadata fs (data_path FLAGS) = Inr metadata"
    and keys: "read_keys metadata metadata_keys = None"
    and bs: "batch_size FLAGS = 1"
  shows "Test fs w FLAGS f0 =
     Some (Test_loop fs w FLAGS metadata
       (rollout_examples fs (data_path FLAGS) (split_name (eval_split FLAGS)))
       \<lparr>loaded = False, test_model = init_params w, example_index = 0, written = [],
        filesystem = f0\<rparr>)"
  by (simp add: Test_def GraphDataset_init_def get_input_fn_rollout[OF meta] bs meta keys
      remaining_def Let_def)


text \<open>
  Without an output path the run ends with TypeError at the first trajectory, when the
  file name is joined to the path, and writes nothing.
\<close>

lemma Test_loop_no_output_path:
  assumes ckpt: "load_state_dict w (model_path FLAGS) = Inr params"
    and out: "output_path FLAGS = None"
    and wf: "0 < num_steps_of feats"
      "num_steps_of feats + INPUT_SEQUENCE_LENGTH \<le> length (step_context feats)"
  shows "Test_loop fs w FLAGS metadata ((feats, targets) # rest)
           \<lparr>loaded = False, test_model = p0, example_index = 0, written = [], filesystem = f0\<rparr> =
         (\<lparr>loaded = True, test_model = params, example_index = 0, written = [],
           filesystem = f0\<rparr>, Some TypeError)"
  by (simp add: ckpt out rollout_op_of_value[OF wf])



lemma example_keys: "read_keys example_metadata metadata_keys = None"
  by (simp add: example_metadata_def metadata_keys_def dict_get_def)


text \<open>
  The file system that the example run leaves: the directory out is made and holds the
  one file with the object of the trajectory.
\<close>

lemma example_run_filesystem:
  "map_option (\<lambda>r. (filesystem (fst r), snd r))
     (Test example_files example_world example_flags ([], [])) =
   Some (([''out''],
          [(''out/rollout_test_0.json'',
            JDict (rollout_dict example_metadata example_features
                     (emitted_positions example_world 7 False example_features)))]), None)"
proof -
  have meta: "read_metadata example_files (data_path example_flags) = Inr example_metadata"
    by (simp add: example_files_def example_flags_def)
  have bs: "batch_size example_flags = 1"
    by (simp add: example_flags_def)
  have wf: "0 < num_steps_of example_features"
    "num_steps_of example_features + INPUT_SEQUENCE_LENGTH \<le> length (step_context example_features)"
    by (simp_all add: example_num_steps) (simp add: rollout_eval)
  have ex: "rollout_examples example_files (data_path example_flags)
      (split_name (eval_split example_flags)) = [(example_features, [[6, 0], [0, 9]])]"
    by (simp add: example_files_def example_flags_def)
  have op: "rollout_op_of example_world 7 False example_metadata example_features =
      Inr (rollout_dict example_metadata example_features
             (emitted_positions example_world 7 False example_features))"
    by (rule rollout_op_of_value[OF wf])
  have nm: "rollout_filename ''out'' split_test 0 = ''out/rollout_test_0.json''"
    by code_simp
  show ?thesis
    unfolding Test_unfold[OF meta example_keys bs] ex
    by (simp add: example_world_def[THEN arg_cong, of load_state_dict] example_flags_def op nm
        example_files_def startswith_def Let_def)
qed

text \<open>
  The same run without an output path ends with TypeError and writes nothing, and with
  the empty output path it ends with FileNotFoundError when the directory is made.
\<close>

lemma example_run_without_output_path:
  "Test example_files example_world (example_flags\<lparr>output_path := None\<rparr>) ([], []) =
     Some (\<lparr>loaded = True, test_model = 7, example_index = 0, written = [],
            filesystem = ([], [])\<rparr>, Some TypeError)"
proof -
  have meta: "read_metadata example_files (data_path (example_flags\<lparr>output_path := None\<rparr>)) =
      Inr example_metadata"
    by (simp add: example_files_def example_flags_def)
  have bs: "batch_size (example_flags\<lparr>output_path := None\<rparr>) = 1"
    by (simp add: example_flags_def)
  have wf: "0 < num_steps_of example_features"
    "num_steps_of example_features + INPUT_SEQUENCE_LENGTH \<le> length (step_context example_features)"
    by (simp_all add: example_num_steps) (simp add: rollout_eval)
  have ckpt: "load_state_dict example_world (model_path (example_flags\<lparr>output_path := None\<rparr>)) =
      Inr 7"
    by (simp add: example_world_def example_flags_def)
  have out: "output_path (example_flags\<lparr>output_path := None\<rparr>) = None" by simp
  have ex: "rollout_examples example_files (data_path (example_flags\<lparr>output_path := None\<rparr>))
      (split_name (eval_split (example_flags\<lparr>output_path := None\<rparr>))) =
      [(example_features, [[6, 0], [0, 9]])]"
    by (simp add: example_files_def example_flags_def)
  show ?thesis
    unfolding Test_unfold[OF meta example_keys bs] ex
    by (simp only: Test_loop_no_output_path[OF ckpt out wf])
qed

lemma example_run_empty_output_path:
  "map_option snd (Test example_files example_world (example_flags\<lparr>output_path := Some []\<rparr>)
     ([], [])) = Some (Some FileNotFoundError)"
proof -
  have meta: "read_metadata example_files (data_path (example_flags\<lparr>output_path := Some []\<rparr>)) =
      Inr example_metadata"
    by (simp add: example_files_def example_flags_def)
  have bs: "batch_size (example_flags\<lparr>output_path := Some []\<rparr>) = 1"
    by (simp add: example_flags_def)
  have wf: "0 < num_steps_of example_features"
    "num_steps_of example_features + INPUT_SEQUENCE_LENGTH \<le> length (step_context example_features)"
    by (simp_all add: example_num_steps) (simp add: rollout_eval)
  have ex: "rollout_examples example_files (data_path (example_flags\<lparr>output_path := Some []\<rparr>))
      (split_name (eval_split (example_flags\<lparr>output_path := Some []\<rparr>))) =
      [(example_features, [[6, 0], [0, 9]])]"
    by (simp add: example_files_def example_flags_def)
  have op: "rollout_op_of example_world 7 False example_metadata example_features =
      Inr (rollout_dict example_metadata example_features
             (emitted_positions example_world 7 False example_features))"
    by (rule rollout_op_of_value[OF wf])
  show ?thesis
    unfolding Test_unfold[OF meta example_keys bs] ex
    by (simp add: example_world_def[THEN arg_cong, of load_state_dict] example_flags_def op
        example_files_def)
qed

section \<open>Properties of main and the input function\<close>

lemma Test_loop_mode:
  "Test_loop fs w (FLAGS\<lparr>mode := m\<rparr>) metadata elements s =
     Test_loop fs w FLAGS metadata elements s"
proof (induction elements arbitrary: s)
  case Nil
  show ?case by simp
next
  case (Cons e rest)
  obtain feats targets where e: "e = (feats, targets)" by (cases e)
  show ?case unfolding e Test_loop.simps
    by (simp add: Cons.IH Let_def cong: sum.case_cong if_cong option.case_cong)
qed

lemma Test_mode: "Test fs w (FLAGS\<lparr>mode := m\<rparr>) f0 = Test fs w FLAGS f0"
  by (simp add: Test_def GraphDataset_init_def Test_loop_mode Let_def
      cong: sum.case_cong option.case_cong)

lemma Train_iteration_mode:
  "Train_iteration w (FLAGS\<lparr>mode := m\<rparr>) element s = Train_iteration w FLAGS element s"
  by (simp add: Train_iteration_def Let_def
      cong: prod.case_cong option.case_cong sum.case_cong if_cong)

lemma Train_loop_mode:
  "Train_loop w (FLAGS\<lparr>mode := m\<rparr>) elements s = Train_loop w FLAGS elements s"
  by (induction elements arbitrary: s) (simp_all add: Train_iteration_mode cong: sum.case_cong)

lemma Train_mode: "Train fs w (FLAGS\<lparr>mode := m\<rparr>) = Train fs w FLAGS"
  by (simp add: Train_def GraphDataset_init_def Train_loop_mode
      cong: sum.case_cong option.case_cong)

text \<open>
  Claim C10: main sends the mode train to Train and every other mode to Test, and Test
  does not read the mode: a run with mode eval and a run with mode eval_rollout, all
  other inputs equal, are the same evaluation and give the same result.
\<close>

theorem evaluation_modes_identical:
  "main fs w (FLAGS\<lparr>mode := eval\<rparr>) f0 = main fs w (FLAGS\<lparr>mode := eval_rollout\<rparr>) f0
   \<and> main fs w (FLAGS\<lparr>mode := eval\<rparr>) f0 = map_option Tested (Test fs w FLAGS f0)
   \<and> main fs w (FLAGS\<lparr>mode := eval_rollout\<rparr>) f0 = map_option Tested (Test fs w FLAGS f0)
   \<and> main fs w (FLAGS\<lparr>mode := train\<rparr>) f0 = map_option Trained (Train fs w FLAGS)"
  by (simp add: main_def Test_mode Train_mode)

text \<open>
  Claim C9: in the modes eval and eval_rollout the input function is called with mode
  rollout and asserts that the batch size is 1. With another batch size the construction
  of the dataset fails, by the assertion whenever the metadata can be read, and the run
  ends before any example is processed. With batch size 1 the only failure of the input
  function is a failure to read the metadata, and with readable metadata the dataset is
  built.
\<close>

theorem evaluation_requires_batch_size_1:
  assumes md: "mode FLAGS = eval \<or> mode FLAGS = eval_rollout"
  shows "(batch_size FLAGS \<noteq> 1 \<longrightarrow>
           (\<exists>e. GraphDataset_init fs FLAGS ''rollout'' (split_name (eval_split FLAGS)) =
                  Some (Inl e)
              \<and> main fs w FLAGS f0 =
                  Some (Tested (\<lparr>loaded = False, test_model = init_params w,
                                 example_index = 0, written = [], filesystem = f0\<rparr>, Some e))
              \<and> (\<forall>metadata. read_metadata fs (data_path FLAGS) = Inr metadata
                     \<longrightarrow> e = AssertionError)))
    \<and> (batch_size FLAGS = 1 \<longrightarrow>
           (\<forall>e. get_input_fn fs (data_path FLAGS) (batch_size FLAGS) ''rollout''
                   (split_name (eval_split FLAGS)) = Inl e
                 \<longrightarrow> read_metadata fs (data_path FLAGS) = Inl e)
         \<and> (\<forall>metadata. read_metadata fs (data_path FLAGS) = Inr metadata \<longrightarrow>
               GraphDataset_init fs FLAGS ''rollout'' (split_name (eval_split FLAGS)) =
                 Some (Inr \<lparr>dataset = rollout_examples fs (data_path FLAGS)
                                         (split_name (eval_split FLAGS)),
                            size_ds = length (rollout_examples fs (data_path FLAGS)
                                         (split_name (eval_split FLAGS))),
                            pos = 0\<rparr>)))"
proof -
  have nt: "mode FLAGS \<noteq> train" using md by auto
  show ?thesis
  proof (cases "read_metadata fs (data_path FLAGS)")
    case (Inl e)
    then show ?thesis using nt
      by (simp add: main_def Test_def GraphDataset_init_def get_input_fn_def)
  next
    case (Inr metadata)
    then show ?thesis using nt
      by (simp add: main_def Test_def GraphDataset_init_def get_input_fn_def startswith_def)
  qed
qed

text \<open>Claim C10 on the example flags.\<close>

theorem evaluation_modes_identical_witness:
  "main example_files example_world (example_flags\<lparr>mode := eval\<rparr>) ([], []) =
     main example_files example_world example_flags ([], [])"
  using evaluation_modes_identical[of example_files example_world example_flags "([], [])"]
  by (simp add: example_flags_def)

text \<open>
  Claim C9 on the example: batch size 2 ends the run with the assertion and nothing
  written; batch size 1 builds the dataset.
\<close>

theorem evaluation_requires_batch_size_1_witness:
  "main example_files example_world (example_flags\<lparr>batch_size := 2\<rparr>) ([], []) =
     Some (Tested (\<lparr>loaded = False, test_model = 0, example_index = 0, written = [],
                    filesystem = ([], [])\<rparr>, Some AssertionError))
   \<and> GraphDataset_init example_files example_flags ''rollout'' ''test'' =
       Some (Inr \<lparr>dataset = [(example_features, [[6, 0], [0, 9]])], size_ds = 1, pos = 0\<rparr>)"
proof -
  have md: "mode (example_flags\<lparr>batch_size := 2\<rparr>) = eval
      \<or> mode (example_flags\<lparr>batch_size := 2\<rparr>) = eval_rollout"
    and md1: "mode example_flags = eval \<or> mode example_flags = eval_rollout"
    by (simp_all add: example_flags_def)
  have meta: "read_metadata example_files (data_path (example_flags\<lparr>batch_size := 2\<rparr>)) =
      Inr example_metadata"
    and meta1: "read_metadata example_files (data_path example_flags) =
      Inr example_metadata"
    by (simp_all add: example_files_def example_flags_def)
  have b2: "batch_size (example_flags\<lparr>batch_size := 2\<rparr>) \<noteq> 1"
    and b1: "batch_size example_flags = 1"
    by (simp_all add: example_flags_def)
  from evaluation_requires_batch_size_1[OF md, of example_files example_world "([], [])"] b2 meta
  have a: "main example_files example_world (example_flags\<lparr>batch_size := 2\<rparr>) ([], []) =
     Some (Tested (\<lparr>loaded = False, test_model = init_params example_world,
                    example_index = 0, written = [], filesystem = ([], [])\<rparr>,
                   Some AssertionError))"
    by auto
  from evaluation_requires_batch_size_1[OF md1, of example_files example_world "([], [])"]
    b1 meta1
  have b: "GraphDataset_init example_files example_flags ''rollout''
       (split_name (eval_split example_flags)) =
     Some (Inr \<lparr>dataset = rollout_examples example_files (data_path example_flags)
                             (split_name (eval_split example_flags)),
                size_ds = length (rollout_examples example_files (data_path example_flags)
                             (split_name (eval_split example_flags))),
                pos = 0\<rparr>)"
    by blast
  from a b show ?thesis
    by (simp add: example_world_def example_flags_def example_files_def)
qed

section \<open>Properties of the training loop\<close>



lemma Train_iteration_first:
  assumes "optimizer s = None"
  shows "Train_iteration w FLAGS element s =
     (case literal_eval w (message_passing_devices FLAGS) of
        Inl e \<Rightarrow> Inl e
      | Inr devices \<Rightarrow>
         if fp16 FLAGS \<and> \<not> apex_available w then Inl SystemExit
         else Inr (s\<lparr>optimizer := Some \<lparr>lr = 1 / 100000, n_updates = 0\<rparr>\<rparr>))"
  using assms by (cases element) (simp add: Train_iteration_def Let_def)








text \<open>
  With the default of the flag message_passing_devices, on which literal_eval raises,
  the loop ends in the first iteration.
\<close>

lemma Train_loop_literal_error:
  assumes "literal_eval w (message_passing_devices FLAGS) = Inl e"
  shows "Train_loop w FLAGS (element # rest) (Train_init w test_ds) = Inl e"
  using assms by (simp add: Train_iteration_first Train_init_def)

text \<open>
  Both datasets of Train are built in the mode one_step_train: when the training file
  gives an element the construction of the dataset does not return, and a run of Train
  that returns has gone through no element.
\<close>

lemma Train_no_return:
  assumes "read_metadata fs (data_path FLAGS) = Inr metadata"
    and "one_step_examples fs (data_path FLAGS) ''train'' (batch_size FLAGS)
           ''one_step_train'' \<noteq> []"
  shows "Train fs w FLAGS = None"
  using assms by (simp add: Train_def GraphDataset_init_def get_input_fn_def startswith_def)

lemma GraphDataset_init_train_empty:
  assumes "GraphDataset_init fs FLAGS ''one_step_train'' split = Some (Inr ds)"
  shows "remaining ds = []"
  using assms
  by (auto simp: GraphDataset_init_def get_input_fn_def startswith_def remaining_def Let_def
      split: sum.splits if_splits tf_dataset.splits)

lemma Train_returns_untrained:
  assumes "Train fs w FLAGS = Some (Inr s)"
  shows "model s = init_params w \<and> optimizer s = None \<and> step s = 0"
proof -
  from assms obtain ds test_ds where
    ds: "GraphDataset_init fs FLAGS ''one_step_train'' ''train'' = Some (Inr ds)"
    and r: "Train_loop w FLAGS (remaining ds) (Train_init w test_ds) = Inr s"
    by (auto simp: Train_def split: option.splits sum.splits)
  from r have "s = Train_init w test_ds"
    by (simp add: GraphDataset_init_train_empty[OF ds])
  then show ?thesis by (simp add: Train_init_def)
qed




text \<open>
  On the default of the flag the first iteration of the example raises SyntaxError.
\<close>

lemma example_default_devices:
  "Train_loop example_world
     (example_flags\<lparr>message_passing_devices := default_message_passing_devices\<rparr>)
     [example_element, example_element] (Train_init example_world example_test_dataset) =
     Inl SyntaxError"
proof -
  have "literal_eval example_world (message_passing_devices
      (example_flags\<lparr>message_passing_devices := default_message_passing_devices\<rparr>)) =
      Inl SyntaxError"
    by (simp add: example_world_def default_message_passing_devices_def)
  then show ?thesis by (rule Train_loop_literal_error)
qed

text \<open>The example training file gives an element: Train does not return.\<close>

lemma example_Train_no_return: "Train example_files example_world example_flags = None"
  by (rule Train_no_return[where metadata = example_metadata])
    (simp_all add: example_files_def example_flags_def example_element_def)
end
